theory Spec2Isabelle
  imports Main
begin

section \<open>The Hutoma client: a shallow embedding\<close>

text \<open>
  The development follows the Python sources of the client: \<^verbatim>\<open>hutoma/helpers.py\<close>
  (URL normalisation), \<^verbatim>\<open>hutoma/internal.py\<close> (redirect and status dispatch),
  \<^verbatim>\<open>hutoma/__init__.py\<close> (the request loop and the JSON materializer),
  \<^verbatim>\<open>hutoma/objects.py\<close> (the lazily populated objects) and
  \<^verbatim>\<open>hutoma/errors.py\<close> (the exception classes).

  Python exceptions are values: a function that may raise returns \<open>pyerr + 'a\<close>, with
  \<open>Inl\<close> the exception. Byte-oriented text (URLs, attribute names, dictionary keys) is
  \<open>string\<close>; all the characters the code tests for are ASCII, so that suffix tests and
  slices by a number of characters agree with Python's on the UTF-8 form of the text.
\<close>

subsection \<open>\<^verbatim>\<open>helpers.py\<close>: URL normalisation\<close>

text \<open>Python's \<^verbatim>\<open>s.endswith(suf)\<close>.\<close>

definition endswith :: "string \<Rightarrow> string \<Rightarrow> bool" where
  "endswith s suf \<longleftrightarrow> length suf \<le> length s \<and> drop (length s - length suf) s = suf"

text \<open>
  Python's slice \<^verbatim>\<open>s[:-n]\<close> for \<open>n > 0\<close>: all but the last \<open>n\<close> characters, and the
  empty string when \<open>s\<close> is shorter than \<open>n\<close>.
\<close>

definition drop_last :: "nat \<Rightarrow> string \<Rightarrow> string" where
  "drop_last n s = take (length s - n) s"

text \<open>
  \<^verbatim>\<open>
  def normalize_url(url):
      if url.endswith('.json'):
          url = url[:-5]
      if url.endswith('/'):
          url = url[:-1]
      return url
  \<close>
\<close>

definition normalize_url :: "string \<Rightarrow> string" where
  "normalize_url url =
     (let url1 = (if endswith url ''.json'' then drop_last 5 url else url);
          url2 = (if endswith url1 ''/'' then drop_last 1 url1 else url1)
      in url2)"

subsection \<open>Responses and exceptions\<close>

text \<open>
  The body of a response is Python text that entity decoding maps to arbitrary Unicode
  code points, so it is a list of code points; \<open>ustr\<close> reads an ASCII literal as such.
\<close>

type_synonym ustring = "nat list"

definition ustr :: "string \<Rightarrow> ustring" where
  "ustr s = map of_char s"

text \<open>
  What the code reads of a \<^verbatim>\<open>requests\<close> response: \<^verbatim>\<open>status_code\<close>, \<^verbatim>\<open>url\<close>,
  \<^verbatim>\<open>headers['location']\<close> (absent: \<open>None\<close>), \<^verbatim>\<open>text\<close> and \<^verbatim>\<open>cookies\<close>.
\<close>

record response =
  status_code :: int
  resp_url :: string
  location :: "string option"
  resp_text :: ustring
  resp_cookies :: "string \<rightharpoonup> string"

text \<open>
  The exceptions the modelled code can raise. \<open>Forbidden\<close>, \<open>NotFound\<close> and
  \<open>HTTPException\<close> are the classes of \<^verbatim>\<open>errors.py\<close> that carry the raw response
  (\<^verbatim>\<open>_raw\<close>); \<open>HTTPError\<close> is the one of the \<^verbatim>\<open>requests\<close> library; the others are
  Python's built-in ones.
\<close>

datatype pyerr =
    Forbidden response
  | NotFound response
  | HTTPException response
  | HTTPError response
  | AssertionError
  | KeyError
  | AttributeError
  | TypeError
  | ValueError
  | RecursionError

subsection \<open>\<^verbatim>\<open>internal.py\<close>: redirects and status codes\<close>

text \<open>
  \<^verbatim>\<open>
  def _raise_redirect_exceptions(response):
      if response.status_code not in [301, 302, 307]:
          return None
      new_url = urljoin(response.url, response.headers['location'])
      return new_url
  \<close>
  \<^verbatim>\<open>urljoin\<close> is the standard library's and is a parameter. A redirect without a
  \<^verbatim>\<open>Location\<close> header raises \<^verbatim>\<open>KeyError\<close>.
\<close>

definition raise_redirect_exceptions ::
  "(string \<Rightarrow> string \<Rightarrow> string) \<Rightarrow> response \<Rightarrow> pyerr + string option" where
  "raise_redirect_exceptions urljoin r =
     (if status_code r \<notin> {301, 302, 307} then Inr None
      else case location r of
             None \<Rightarrow> Inl KeyError
           | Some loc \<Rightarrow> Inr (Some (urljoin (resp_url r) loc)))"

text \<open>
  \<^verbatim>\<open>Response.raise_for_status\<close> of the \<^verbatim>\<open>requests\<close> library, which the dispatcher
  calls: it raises \<^verbatim>\<open>HTTPError\<close>, holding the response, for the client errors
  \<open>400 \<le> status_code < 500\<close> and the server errors \<open>500 \<le> status_code < 600\<close>, and
  returns for every other status.
\<close>

definition raise_for_status :: "response \<Rightarrow> pyerr + unit" where
  "raise_for_status r =
     (if 400 \<le> status_code r \<and> status_code r < 600 then Inl (HTTPError r) else Inr ())"

text \<open>
  \<^verbatim>\<open>
  def _raise_response_exceptions(response):
      if response.status_code == codes.forbidden:
          raise Forbidden(_raw=response)
      elif response.status_code == codes.not_found:
          raise NotFound(_raw=response)
      else:
          try:
              response.raise_for_status()
          except exceptions.HTTPError as exc:
              raise HTTPException(_raw=exc.response)
  \<close>
\<close>

definition raise_response_exceptions :: "response \<Rightarrow> pyerr + unit" where
  "raise_response_exceptions r =
     (if status_code r = 403 then Inl (Forbidden r)
      else if status_code r = 404 then Inl (NotFound r)
      else case raise_for_status r of
             Inl (HTTPError r') \<Rightarrow> Inl (HTTPException r')
           | Inl e \<Rightarrow> Inl e
           | Inr u \<Rightarrow> Inr ())"

subsection \<open>\<^verbatim>\<open>__init__.py\<close>: entity decoding\<close>

text \<open>Python 3's \<^verbatim>\<open>chr\<close>: the code point itself, \<^verbatim>\<open>ValueError\<close> beyond \<^verbatim>\<open>0x10FFFF\<close>.\<close>

definition chr :: "nat \<Rightarrow> pyerr + nat" where
  "chr cp = (if cp \<le> 1114111 then Inr cp else Inl ValueError)"

definition ampersand :: nat where
  "ampersand = 38"

definition semicolon :: nat where
  "semicolon = 59"

text \<open>
  \<^verbatim>\<open>
  def decode(match):
      return CHR(html_entities.name2codepoint[match.group(1)])
  ...
  re.sub('&([^;]+);', decode, response.text)
  \<close>
  The pattern matches at an ampersand that is followed by at least one character other
  than a semicolon and then, after all of these, by a semicolon; the group is the text
  between the two. Matches are taken leftmost first and do not overlap; \<^verbatim>\<open>decode\<close> runs
  on each in turn, and a name that is no key of the table raises \<^verbatim>\<open>KeyError\<close>. The
  table \<^verbatim>\<open>name2codepoint\<close> is the standard library's and is a parameter.
\<close>

function sub_entities :: "(ustring \<rightharpoonup> nat) \<Rightarrow> ustring \<Rightarrow> pyerr + ustring" where
  "sub_entities n2c [] = Inr []"
| "sub_entities n2c (c # cs) =
     (let name = takeWhile (\<lambda>x. x \<noteq> semicolon) cs; rest = dropWhile (\<lambda>x. x \<noteq> semicolon) cs in
      if c = ampersand \<and> name \<noteq> [] \<and> rest \<noteq> [] then
        (case n2c name of
           None \<Rightarrow> Inl KeyError
         | Some cp \<Rightarrow>
             (case chr cp of
                Inl e \<Rightarrow> Inl e
              | Inr u \<Rightarrow>
                  (case sub_entities n2c (tl rest) of
                     Inl e \<Rightarrow> Inl e
                   | Inr t \<Rightarrow> Inr (u # t))))
      else
        (case sub_entities n2c cs of
           Inl e \<Rightarrow> Inl e
         | Inr t \<Rightarrow> Inr (c # t)))"
  by pat_completeness auto
termination
proof (relation "measure (\<lambda>(n2c, s). length s)")
  fix n2c :: "ustring \<rightharpoonup> nat" and c :: nat and cs x xa
  assume "xa = dropWhile (\<lambda>x. x \<noteq> semicolon) cs"
  then have "length (tl xa) \<le> length cs"
    using length_dropWhile_le [of "\<lambda>x. x \<noteq> semicolon" cs] by simp
  then show "((n2c, tl xa), (n2c, c # cs)) \<in> measure (\<lambda>(n2c, s). length s)" by simp
qed simp_all

text \<open>
  What \<^verbatim>\<open>re.sub\<close> sees in a text, for the statements about decoding: the matches of
  \<^verbatim>\<open>&([^;]+);\<close>, leftmost first and not overlapping, each with the name it captures,
  and between them the characters that belong to no match.
\<close>

datatype piece = Kept nat | Match ustring

function pieces :: "ustring \<Rightarrow> piece list" where
  "pieces [] = []"
| "pieces (c # cs) =
     (let name = takeWhile (\<lambda>x. x \<noteq> semicolon) cs; rest = dropWhile (\<lambda>x. x \<noteq> semicolon) cs in
      if c = ampersand \<and> name \<noteq> [] \<and> rest \<noteq> [] then Match name # pieces (tl rest)
      else Kept c # pieces cs)"
  by pat_completeness auto
termination
proof (relation "measure length")
  fix c :: nat and cs x xa
  assume "xa = dropWhile (\<lambda>x. x \<noteq> semicolon) cs"
  then have "length (tl xa) \<le> length cs"
    using length_dropWhile_le [of "\<lambda>x. x \<noteq> semicolon" cs] by simp
  then show "(tl xa, c # cs) \<in> measure length" by simp
qed simp_all

text \<open>The text of a piece, and the text that replaces it.\<close>

fun source_of :: "piece \<Rightarrow> ustring" where
  "source_of (Kept c) = [c]"
| "source_of (Match name) = ampersand # name @ [semicolon]"

fun replaced :: "(ustring \<rightharpoonup> nat) \<Rightarrow> piece \<Rightarrow> ustring" where
  "replaced n2c (Kept c) = [c]"
| "replaced n2c (Match name) = (case n2c name of None \<Rightarrow> [] | Some cp \<Rightarrow> [cp])"

subsection \<open>\<^verbatim>\<open>__init__.py\<close>: the request loop\<close>

text \<open>
  The collaborators of \<^verbatim>\<open>_request\<close>: \<^verbatim>\<open>urljoin\<close>, the handler's \<^verbatim>\<open>request\<close> (it
  gets the request, here its URL, and the cache key \<^verbatim>\<open>normalize_url(request.url)\<close>,
  answers with a response and may change its own state \<open>'h\<close>) and the entity table.
  The handler is taken to answer every request: an exception of the transport is none
  of the \<open>HTTPException\<close> family and would leave \<^verbatim>\<open>_request\<close> at once.
\<close>

record 'h client =
  urljoin :: "string \<Rightarrow> string \<Rightarrow> string"
  handler_request :: "'h \<Rightarrow> string \<Rightarrow> string \<Rightarrow> response \<times> 'h"
  name2codepoint :: "ustring \<rightharpoonup> nat"

text \<open>
  The state a call of \<^verbatim>\<open>_request\<close> works on: the handler's state, the \<^verbatim>\<open>url\<close> of the
  one \<^verbatim>\<open>request\<close> object that \<^verbatim>\<open>build_key_items\<close> made, and the session's cookies.
\<close>

record 'h session =
  handler_state :: 'h
  request_url :: string
  http_cookies :: "string \<rightharpoonup> string"

text \<open>The test of \<^verbatim>\<open>while url:\<close>, false for \<^verbatim>\<open>None\<close> and for the empty string.\<close>

definition truthy_url :: "string option \<Rightarrow> bool" where
  "truthy_url u = (case u of None \<Rightarrow> False | Some s \<Rightarrow> s \<noteq> [])"

text \<open>
  \<^verbatim>\<open>
  def handle_redirect():
      response = None
      url = request.url
      while url:  # Manually handle 302 redirects
          request.url = url
          kwargs['_cache_key'] = (normalize_url(request.url), tuple(key_items))
          response = self.handler.request(request=request.prepare(), ...)
          url = _raise_redirect_exceptions(response)
          assert url != request.url
      return response
  \<close>
  The loop may run forever, so it is a partial function: \<open>None\<close> is "does not return".
\<close>

partial_function (option) redirect_loop ::
  "'h client \<Rightarrow> string option \<Rightarrow> response option \<Rightarrow> 'h session
     \<Rightarrow> ((pyerr + response option) \<times> 'h session) option" where
  "redirect_loop cl url response st =
     (if \<not> truthy_url url then Some (Inr response, st)
      else
        let st1 = st\<lparr>request_url := the url\<rparr>;
            (resp, h') = handler_request cl (handler_state st1) (request_url st1)
                           (normalize_url (request_url st1));
            st2 = st1\<lparr>handler_state := h'\<rparr>
        in case raise_redirect_exceptions (urljoin cl) resp of
             Inl e \<Rightarrow> Some (Inl e, st2)
           | Inr url' \<Rightarrow>
               if url' = Some (request_url st2) then Some (Inl AssertionError, st2)
               else redirect_loop cl url' (Some resp) st2)"

definition handle_redirect ::
  "'h client \<Rightarrow> 'h session \<Rightarrow> ((pyerr + response option) \<times> 'h session) option" where
  "handle_redirect cl st = redirect_loop cl (Some (request_url st)) None st"

text \<open>What \<^verbatim>\<open>_request\<close> returns: the response itself or the decoded body.\<close>

datatype reply = Raw response | Body ustring

text \<open>
  The body of the \<^verbatim>\<open>try\<close>:
  \<^verbatim>\<open>
  response = handle_redirect()
  _raise_response_exceptions(response)
  self.http.cookies.update(response.cookies)
  if raw_response:
      return response
  else:
      return re.sub('&([^;]+);', decode, response.text)
  \<close>
  When the URL is empty the loop does not run and \<^verbatim>\<open>response\<close> is \<^verbatim>\<open>None\<close>, whose
  \<^verbatim>\<open>status_code\<close> is an \<^verbatim>\<open>AttributeError\<close>.
\<close>

definition attempt ::
  "'h client \<Rightarrow> bool \<Rightarrow> 'h session \<Rightarrow> ((pyerr + reply) \<times> 'h session) option" where
  "attempt cl raw_response st =
     (case handle_redirect cl st of
        None \<Rightarrow> None
      | Some (Inl e, st1) \<Rightarrow> Some (Inl e, st1)
      | Some (Inr None, st1) \<Rightarrow> Some (Inl AttributeError, st1)
      | Some (Inr (Some resp), st1) \<Rightarrow>
          (case raise_response_exceptions resp of
             Inl e \<Rightarrow> Some (Inl e, st1)
           | Inr u \<Rightarrow>
               let st2 = st1\<lparr>http_cookies := http_cookies st1 ++ resp_cookies resp\<rparr>
               in if raw_response then Some (Inr (Raw resp), st2)
                  else (case sub_entities (name2codepoint cl) (resp_text resp) of
                          Inl e \<Rightarrow> Some (Inl e, st2)
                        | Inr t \<Rightarrow> Some (Inr (Body t), st2))))"

definition RETRY_CODES :: "int list" where
  "RETRY_CODES = [502, 503, 504]"

text \<open>
  \<^verbatim>\<open>except errors.HTTPException as error\<close> catches the class and its subclasses
  \<^verbatim>\<open>Forbidden\<close> and \<^verbatim>\<open>NotFound\<close>; \<open>http_raw\<close> is \<^verbatim>\<open>error._raw\<close> for these.
\<close>

fun http_raw :: "pyerr \<Rightarrow> response option" where
  "http_raw (Forbidden r) = Some r"
| "http_raw (NotFound r) = Some r"
| "http_raw (HTTPException r) = Some r"
| "http_raw _ = None"

text \<open>
  \<^verbatim>\<open>
  remaining_attempts = 3 if retry_on_error else 1
  while True:
      try:
          ...
      except errors.HTTPException as error:
          remaining_attempts -= 1
          if error._raw.status_code not in self.RETRY_CODES or \
                  remaining_attempts == 0:
              raise
  \<close>
\<close>

partial_function (option) request_loop ::
  "'h client \<Rightarrow> bool \<Rightarrow> int \<Rightarrow> 'h session \<Rightarrow> ((pyerr + reply) \<times> 'h session) option" where
  "request_loop cl raw_response remaining_attempts st =
     (case attempt cl raw_response st of
        None \<Rightarrow> None
      | Some (Inr v, st') \<Rightarrow> Some (Inr v, st')
      | Some (Inl error, st') \<Rightarrow>
          (case http_raw error of
             None \<Rightarrow> Some (Inl error, st')
           | Some raw \<Rightarrow>
               let remaining = remaining_attempts - 1 in
               if status_code raw \<notin> set RETRY_CODES \<or> remaining = 0
               then Some (Inl error, st')
               else request_loop cl raw_response remaining st'))"

text \<open>\<^verbatim>\<open>_request(url, raw_response=..., retry_on_error=...)\<close>, on the request for \<open>url\<close>.\<close>

definition request ::
  "'h client \<Rightarrow> string \<Rightarrow> bool \<Rightarrow> bool \<Rightarrow> 'h session
     \<Rightarrow> ((pyerr + reply) \<times> 'h session) option" where
  "request cl url raw_response retry_on_error st =
     request_loop cl raw_response (if retry_on_error then 3 else 1) (st\<lparr>request_url := url\<rparr>)"

text \<open>
  The outcome of an attempt that the policy answers by another attempt, as the state in
  which that attempt starts: an exception of the \<^verbatim>\<open>HTTPException\<close> family whose status
  is one of \<open>RETRY_CODES\<close>.
\<close>

definition retried ::
  "((pyerr + reply) \<times> 'h session) option \<Rightarrow> 'h session option" where
  "retried outcome =
     (case outcome of
        Some (Inl error, st') \<Rightarrow>
          (case http_raw error of
             Some raw \<Rightarrow> if status_code raw \<in> set RETRY_CODES then Some st' else None
           | None \<Rightarrow> None)
      | _ \<Rightarrow> None)"

text \<open>
  A handler for concrete runs: it answers with the responses of a script, one per call,
  and with status 200 and an empty body once the script is used up; it records the URL of
  every request it gets.
\<close>

definition mk_response :: "int \<Rightarrow> string \<Rightarrow> response" where
  "mk_response code body =
     \<lparr>status_code = code, resp_url = ''https://x/y'', location = None,
      resp_text = ustr body, resp_cookies = Map.empty\<rparr>"

definition scripted ::
  "response list \<times> string list \<Rightarrow> string \<Rightarrow> string \<Rightarrow> response \<times> response list \<times> string list" where
  "scripted h url cache_key =
     (case fst h of
        [] \<Rightarrow> (mk_response 200 [], [], snd h @ [url])
      | r # rs \<Rightarrow> (r, rs, snd h @ [url]))"

text \<open>
  Six entries of the standard table \<^verbatim>\<open>html.entities.name2codepoint\<close>, for concrete runs.
  The keys of the full table are entity names, made of letters and digits.
\<close>

definition name2codepoint_excerpt :: "ustring \<rightharpoonup> nat" where
  "name2codepoint_excerpt =
     map_of [(ustr ''amp'', 38), (ustr ''lt'', 60), (ustr ''gt'', 62), (ustr ''quot'', 34),
             (ustr ''nbsp'', 160), (ustr ''hearts'', 9829)]"

definition test_client :: "(response list \<times> string list) client" where
  "test_client =
     \<lparr>urljoin = (\<lambda>base loc. loc), handler_request = scripted,
      name2codepoint = name2codepoint_excerpt\<rparr>"

definition test_session :: "response list \<Rightarrow> (response list \<times> string list) session" where
  "test_session script =
     \<lparr>handler_state = (script, []), request_url = [], http_cookies = Map.empty\<rparr>"


text \<open>A server on which two URLs redirect to each other.\<close>

definition ping_pong :: "unit client" where
  "ping_pong =
     \<lparr>urljoin = (\<lambda>base loc. loc),
      handler_request = (\<lambda>h url cache_key.
        ((mk_response 302 [])\<lparr>location :=
            Some (if url = ''https://x/a'' then ''https://x/b'' else ''https://x/a'')\<rparr>, h)),
      name2codepoint = name2codepoint_excerpt\<rparr>"

subsection \<open>Python values\<close>

text \<open>
  The values that the object model and the error classes handle: decoded JSON (without
  floating-point numbers), instances of the classes of \<^verbatim>\<open>objects.py\<close> (the class and the
  instance dictionary), references to the session and to its \<^verbatim>\<open>Config\<close>, a class of
  \<^verbatim>\<open>objects.py\<close>, and what such a class gives under one of its own names (a bound method
  or a class attribute, \<open>PClassAttr\<close>). Python 3 is modelled. An instance
  is a value, not a reference: a change made to an object reached through an attribute of
  another is not seen by the latter.
\<close>

datatype hclass = HutomaObject | Editable | AIList | AI | Folder | Chat | Speak | Training

datatype pyval =
    PNone
  | PBool bool
  | PInt int
  | PStr string
  | PList "pyval list"
  | PDict "(string \<times> pyval) list"
  | PObj hclass "(string \<times> pyval) list"
  | PSession
  | PConfig
  | PClass hclass
  | PClassAttr hclass string

type_synonym hobj = "hclass \<times> (string \<times> pyval) list"

text \<open>Python's truth value; an instance of a class without \<^verbatim>\<open>__bool__\<close> is true.\<close>

fun truthy :: "pyval \<Rightarrow> bool" where
  "truthy PNone = False"
| "truthy (PBool b) = b"
| "truthy (PInt i) = (i \<noteq> 0)"
| "truthy (PStr s) = (s \<noteq> [])"
| "truthy (PList xs) = (xs \<noteq> [])"
| "truthy (PDict kvs) = (kvs \<noteq> [])"
| "truthy (PObj c a) = True"
| "truthy PSession = True"
| "truthy PConfig = True"
| "truthy (PClass c) = True"
| "truthy (PClassAttr c name) = True"

fun is_bool :: "pyval \<Rightarrow> bool" where
  "is_bool (PBool b) = True"
| "is_bool v = False"

text \<open>
  A dictionary is the list of its items, keys distinct, in insertion order: \<open>map_of\<close>
  looks a key up, \<open>length\<close> is \<^verbatim>\<open>len\<close>, and \<open>dict_set\<close> is \<^verbatim>\<open>d[k] = v\<close>.
\<close>

fun dict_set :: "string \<Rightarrow> 'v \<Rightarrow> (string \<times> 'v) list \<Rightarrow> (string \<times> 'v) list" where
  "dict_set k v [] = [(k, v)]"
| "dict_set k v ((k', v') # kvs) =
     (if k' = k then (k, v) # kvs else (k', v') # dict_set k v kvs)"

text \<open>\<^verbatim>\<open>needle in haystack\<close> on two strings: a contiguous substring.\<close>

fun str_contains :: "string \<Rightarrow> string \<Rightarrow> bool" where
  "str_contains [] needle = (needle = [])"
| "str_contains (h # hs) needle =
     (take (length needle) (h # hs) = needle \<or> str_contains hs needle)"

text \<open>\<^verbatim>\<open>v[k]\<close> for a string key on a value that is not the \<^verbatim>\<open>Config\<close>.\<close>

fun py_getitem :: "pyval \<Rightarrow> string \<Rightarrow> pyerr + pyval" where
  "py_getitem (PDict kvs) k = (case map_of kvs k of None \<Rightarrow> Inl KeyError | Some v \<Rightarrow> Inr v)"
| "py_getitem v k = Inl TypeError"

text \<open>\<^verbatim>\<open>name in v\<close> for a string \<open>name\<close>.\<close>

fun py_contains :: "pyval \<Rightarrow> string \<Rightarrow> pyerr + bool" where
  "py_contains (PList xs) name = Inr (PStr name \<in> set xs)"
| "py_contains (PStr s) name = Inr (str_contains s name)"
| "py_contains (PDict kvs) name = Inr (name \<in> fst ` set kvs)"
| "py_contains v name = Inl TypeError"

subsection \<open>\<^verbatim>\<open>errors.py\<close>: the API exceptions and the error mapping\<close>

datatype exc_class =
    HutomaException_class | ClientException_class | UserKeyRequired_class
  | ValidAIRequired_class | HTTPException_class | Forbidden_class | NotFound_class
  | RedirectException_class | APIException_class | ExceptionList_class
  | BadUserKey_class | NoAIFound_class | RateLimitExceeded_class

text \<open>The class attribute \<^verbatim>\<open>ERROR_TYPE\<close>, where a class declares one.\<close>

fun ERROR_TYPE :: "exc_class \<Rightarrow> string option" where
  "ERROR_TYPE BadUserKey_class = Some ''BAD_USER_KEY''"
| "ERROR_TYPE NoAIFound_class = Some ''NO_AI_FOUND''"
| "ERROR_TYPE RateLimitExceeded_class = Some ''RATE_LIMIT''"
| "ERROR_TYPE c = None"

text \<open>The classes of the module, in the order of \<^verbatim>\<open>inspect.getmembers\<close> (by name).\<close>

definition module_classes :: "exc_class list" where
  "module_classes =
     [APIException_class, BadUserKey_class, ClientException_class, ExceptionList_class,
      Forbidden_class, HTTPException_class, HutomaException_class, NoAIFound_class,
      NotFound_class, RateLimitExceeded_class, RedirectException_class,
      UserKeyRequired_class, ValidAIRequired_class]"

text \<open>
  \<^verbatim>\<open>
  def _build_error_mapping():
      def predicate(obj):
          return inspect.isclass(obj) and hasattr(obj, 'ERROR_TYPE')
      tmp = {}
      for _, obj in inspect.getmembers(sys.modules[__name__], predicate):
          tmp[obj.ERROR_TYPE] = obj
      return tmp
  ERROR_MAPPING = _build_error_mapping()
  \<close>
\<close>

definition build_error_mapping :: "exc_class list \<Rightarrow> (string \<times> exc_class) list" where
  "build_error_mapping members =
     foldl (\<lambda>tmp obj. case ERROR_TYPE obj of None \<Rightarrow> tmp | Some t \<Rightarrow> dict_set t obj tmp)
       [] members"

definition ERROR_MAPPING :: "(string \<times> exc_class) list" where
  "ERROR_MAPPING = build_error_mapping module_classes"

text \<open>An instance of \<^verbatim>\<open>APIException\<close> or of a subclass; only \<^verbatim>\<open>RateLimitExceeded\<close> sets
  \<^verbatim>\<open>sleep_time\<close>.\<close>

record api_exception =
  exc_class :: exc_class
  error_type :: string
  message :: string
  field :: string
  response :: pyval
  sleep_time :: "pyval option"

text \<open>
  \<^verbatim>\<open>
  class APIException(HutomaException):
      def __init__(self, error_type, message, field='', response=None):
          super(APIException, self).__init__()
          self.error_type = error_type
          self.message = message
          self.field = field
          self.response = response
  \<close>
\<close>

definition APIException_init ::
  "exc_class \<Rightarrow> string \<Rightarrow> string \<Rightarrow> string \<Rightarrow> pyval \<Rightarrow> api_exception" where
  "APIException_init c etype msg fld resp =
     \<lparr>exc_class = c, error_type = etype, message = msg, field = fld, response = resp,
      sleep_time = None\<rparr>"

text \<open>
  \<^verbatim>\<open>
  class RateLimitExceeded(APIException):
      ERROR_TYPE = 'RATE_LIMIT'
      def __init__(self, error_type, message, field, response):
          super(RateLimitExceeded, self).__init__(error_type, message, field, response)
          self.sleep_time = self.response['ratelimit']
  \<close>
\<close>

definition RateLimitExceeded_init ::
  "string \<Rightarrow> string \<Rightarrow> string \<Rightarrow> pyval \<Rightarrow> pyerr + api_exception" where
  "RateLimitExceeded_init etype msg fld resp =
     (let self = APIException_init RateLimitExceeded_class etype msg fld resp in
      case py_getitem (response self) ''ratelimit'' of
        Inl err \<Rightarrow> Inl err
      | Inr v \<Rightarrow> Inr (self\<lparr>sleep_time := Some v\<rparr>))"

subsection \<open>\<^verbatim>\<open>objects.py\<close>: the objects\<close>

definition HUTOMA_KEYS :: string where
  "HUTOMA_KEYS = ''AIID''"

text \<open>\<^verbatim>\<open>Config.API_PATHS\<close>, and the two tables \<^verbatim>\<open>by_kind\<close> and \<^verbatim>\<open>by_object\<close> of a \<^verbatim>\<open>Config\<close>.\<close>

definition API_PATHS :: "(string \<times> string) list" where
  "API_PATHS =
     [(''ai_list'', ''api/v1/ai/''),
      (''ai'', ''api/v1/ai/{aiid}''),
      (''folder'', ''api/v1/ai/{aiid}/{folder}''),
      (''chat'', ''api/v1/{aiid}/chat''),
      (''speak'', ''api/v1/{aiid}/speak''),
      (''training'', ''api/v1/{aiid}/training'')]"

definition by_kind :: "(string \<times> hclass) list" where
  "by_kind =
     [(''ai_list'', AIList), (''ai'', AI), (''folder'', Folder), (''chat'', Chat),
      (''training'', Training)]"

definition by_object :: "(hclass \<times> string) list" where
  "by_object = map (\<lambda>(key, cls). (cls, key)) by_kind"

text \<open>
  What the objects use of their surroundings: the flag \<^verbatim>\<open>config.store_json_result\<close>
  (whether it \<^verbatim>\<open>is True\<close>), \<^verbatim>\<open>config.api_url\<close>, \<^verbatim>\<open>urljoin\<close>, Python's \<^verbatim>\<open>str\<close> on
  built-in values, and the session's \<^verbatim>\<open>request_json(url, params=params,
  as_objects=False)\<close>, which is the only operation that talks to the server; it works on
  a world \<open>'w\<close> of its own, in which a fetch can be seen.
\<close>

record 'w env =
  store_json_result :: bool
  api_url :: string
  env_urljoin :: "string \<Rightarrow> string \<Rightarrow> string"
  builtin_str :: "pyval \<Rightarrow> string"
  request_json :: "'w \<Rightarrow> pyval \<Rightarrow> pyval \<Rightarrow> (pyerr + pyval) \<times> 'w"

text \<open>
  \<^verbatim>\<open>
  def __getitem__(self, key):
      url = urljoin(self.api_url, self.API_PATHS[key])
      return url
  \<close>
\<close>

definition Config_getitem :: "'w env \<Rightarrow> string \<Rightarrow> pyerr + pyval" where
  "Config_getitem e key =
     (case map_of API_PATHS key of
        None \<Rightarrow> Inl KeyError
      | Some path \<Rightarrow> Inr (PStr (env_urljoin e (api_url e) path)))"

text \<open>\<^verbatim>\<open>v[key]\<close> where \<open>v\<close> may be the \<^verbatim>\<open>Config\<close>.\<close>

definition subscript :: "'w env \<Rightarrow> pyval \<Rightarrow> string \<Rightarrow> pyerr + pyval" where
  "subscript e v key = (case v of PConfig \<Rightarrow> Config_getitem e key | _ \<Rightarrow> py_getitem v key)"

text \<open>\<^verbatim>\<open>v[cls]\<close> where the key is a class of \<^verbatim>\<open>objects.py\<close> and \<open>v\<close> is not \<^verbatim>\<open>by_object\<close>:
  no dictionary of decoded JSON and no \<^verbatim>\<open>Config\<close> has such a key.\<close>

fun py_getitem_class :: "pyval \<Rightarrow> hclass \<Rightarrow> pyerr + pyval" where
  "py_getitem_class (PDict kvs) c = Inl KeyError"
| "py_getitem_class PConfig c = Inl KeyError"
| "py_getitem_class v c = Inl TypeError"

text \<open>
  The names that every instance finds on its class. \<^verbatim>\<open>__class__\<close>, \<^verbatim>\<open>__dict__\<close> and
  \<^verbatim>\<open>__weakref__\<close> are data descriptors, which come before the instance dictionary, as
  the property \<^verbatim>\<open>fullname\<close> does; the methods of \<^verbatim>\<open>HutomaObject\<close> and of \<^verbatim>\<open>Editable\<close>
  and the attributes that \<^verbatim>\<open>object\<close> and the class statement give come after it.
\<close>

definition HutomaObject_members :: "string list" where
  "HutomaObject_members =
     [''from_api_response'', ''__init__'', ''__eq__'', ''__getattr__'', ''__getstate__'',
      ''__ne__'', ''__reduce_ex__'', ''__setattr__'', ''__str__'', ''_get_json_dict'',
      ''_populate'', ''_post_populate'']"

definition Editable_members :: "string list" where
  "Editable_members = [''delete'', ''edit'']"

definition object_members :: "string list" where
  "object_members =
     [''__delattr__'', ''__dir__'', ''__format__'', ''__ge__'', ''__getattribute__'',
      ''__gt__'', ''__init_subclass__'', ''__le__'', ''__lt__'', ''__new__'', ''__reduce__'',
      ''__repr__'', ''__sizeof__'', ''__subclasshook__'']"

fun is_Editable :: "hclass \<Rightarrow> bool" where
  "is_Editable Editable = True"
| "is_Editable AI = True"
| "is_Editable Folder = True"
| "is_Editable c = False"

text \<open>The docstring of a class, \<^verbatim>\<open>None\<close> for a class without one.\<close>

fun class_doc :: "hclass \<Rightarrow> pyval" where
  "class_doc Editable = PStr ''Interface for Hutoma objects that can be edited and deleted.''"
| "class_doc AI = PStr ''A moderator action.''"
| "class_doc c = PNone"

text \<open>
  What the class gives under a name: \<^verbatim>\<open>__hash__\<close> is \<^verbatim>\<open>None\<close> because
  \<^verbatim>\<open>HutomaObject\<close> defines \<^verbatim>\<open>__eq__\<close> and no \<^verbatim>\<open>__hash__\<close>.
\<close>

definition class_attr :: "hclass \<Rightarrow> string \<Rightarrow> pyval option" where
  "class_attr c name =
     (if name = ''__hash__'' then Some PNone
      else if name = ''__module__'' then Some (PStr ''hutoma.objects'')
      else if name = ''__doc__'' then Some (class_doc c)
      else if name \<in> set HutomaObject_members \<or> name \<in> set object_members
              \<or> (is_Editable c \<and> name \<in> set Editable_members)
      then Some (PClassAttr c name)
      else None)"

text \<open>
  The ordinary lookup of \<^verbatim>\<open>self.name\<close> for a name other than \<^verbatim>\<open>fullname\<close>: data
  descriptors, the instance dictionary, the class; \<open>None\<close> when none of them has the
  name, which is when Python turns to \<^verbatim>\<open>__getattr__\<close>.
\<close>

definition lookup :: "hobj \<Rightarrow> string \<Rightarrow> pyval option" where
  "lookup obj name =
     (if name = ''__class__'' then Some (PClass (fst obj))
      else if name = ''__dict__'' then Some (PDict (snd obj))
      else if name = ''__weakref__'' then Some PNone
      else case map_of (snd obj) name of
             Some v \<Rightarrow> Some v
           | None \<Rightarrow> class_attr (fst obj) name)"

text \<open>
  \<^verbatim>\<open>object.__setattr__(self, name, value)\<close>: \<^verbatim>\<open>fullname\<close> is a property without a
  setter and \<^verbatim>\<open>__weakref__\<close> is not writable (\<^verbatim>\<open>AttributeError\<close>); \<^verbatim>\<open>__class__\<close> takes
  a class and \<^verbatim>\<open>__dict__\<close> a dictionary, which replaces the instance dictionary, and
  both raise \<^verbatim>\<open>TypeError\<close> on any other value; any other name is stored in the instance
  dictionary.
\<close>

definition object_setattr :: "string \<Rightarrow> pyval \<Rightarrow> hobj \<Rightarrow> pyerr + hobj" where
  "object_setattr name v obj =
     (if name = ''fullname'' \<or> name = ''__weakref__'' then Inl AttributeError
      else if name = ''__class__'' then
        (case v of PClass c \<Rightarrow> Inr (c, snd obj) | _ \<Rightarrow> Inl TypeError)
      else if name = ''__dict__'' then
        (case v of PDict kvs \<Rightarrow> Inr (fst obj, kvs) | _ \<Rightarrow> Inl TypeError)
      else Inr (fst obj, dict_set name v (snd obj)))"

text \<open>
  A method works on the state \<open>(self, world)\<close> and returns a value or an exception
  together with the new state. \<open>on_ok\<close> continues after a call that returned and passes
  an exception on; \<open>on_self\<close> runs a method on another object.
\<close>

type_synonym 'w st = "hobj \<times> 'w"
type_synonym ('w, 'a) res = "(pyerr + 'a) \<times> 'w st"

definition ret :: "'a \<Rightarrow> 's \<Rightarrow> (pyerr + 'a) \<times> 's" where
  "ret v s = (Inr v, s)"

definition raise :: "pyerr \<Rightarrow> 's \<Rightarrow> (pyerr + 'a) \<times> 's" where
  "raise err s = (Inl err, s)"

definition lift_res :: "pyerr + 'a \<Rightarrow> 's \<Rightarrow> (pyerr + 'a) \<times> 's" where
  "lift_res r s = (r, s)"

definition on_ok ::
  "(pyerr + 'a) \<times> 's \<Rightarrow> ('a \<Rightarrow> 's \<Rightarrow> (pyerr + 'b) \<times> 's) \<Rightarrow> (pyerr + 'b) \<times> 's" where
  "on_ok r f = (case r of (Inl err, s) \<Rightarrow> (Inl err, s) | (Inr v, s) \<Rightarrow> f v s)"

definition on_self ::
  "hobj \<Rightarrow> ('w st \<Rightarrow> ('w, 'a) res) \<Rightarrow> 'w \<Rightarrow> (pyerr + 'a \<times> hobj) \<times> 'w" where
  "on_self obj m w =
     (case m (obj, w) of
        (Inl err, obj', w') \<Rightarrow> (Inl err, w')
      | (Inr v, obj', w') \<Rightarrow> (Inr (v, obj'), w'))"

definition in_world :: "('w \<Rightarrow> (pyerr + 'a) \<times> 'w) \<Rightarrow> 'w st \<Rightarrow> ('w, 'a) res" where
  "in_world f s = (case f (snd s) of (r, w') \<Rightarrow> (r, fst s, w'))"

text \<open>
  The methods call each other without a bound (\<^verbatim>\<open>__getattr__\<close> populates, populating
  reads attributes), so each body is written over the table \<open>k\<close> of the methods it may
  call, and \<open>depth\<close> ties the knot: at nesting depth \<open>0\<close> every call raises
  \<^verbatim>\<open>RecursionError\<close>, as Python does at its recursion limit.
\<close>

record 'w callees =
  k_obj_getattr :: "string \<Rightarrow> 'w st \<Rightarrow> ('w, pyval) res"
  k_dunder_getattr :: "string \<Rightarrow> 'w st \<Rightarrow> ('w, pyval) res"
  k_fullname :: "'w st \<Rightarrow> ('w, pyval) res"
  k_get_json_dict :: "'w st \<Rightarrow> ('w, pyval) res"
  k_populate :: "pyval \<Rightarrow> bool \<Rightarrow> 'w st \<Rightarrow> ('w, bool) res"
  k_dunder_setattr :: "string \<Rightarrow> pyval \<Rightarrow> 'w st \<Rightarrow> ('w, unit) res"
  k_py_getattr :: "pyval \<Rightarrow> string \<Rightarrow> 'w \<Rightarrow> (pyerr + pyval) \<times> 'w"
  k_py_str :: "pyval \<Rightarrow> 'w \<Rightarrow> (pyerr + string) \<times> 'w"
  k_init :: "hclass \<Rightarrow> pyval \<Rightarrow> pyval \<Rightarrow> bool \<Rightarrow> pyval \<Rightarrow> pyval \<Rightarrow> pyval \<Rightarrow> 'w
               \<Rightarrow> (pyerr + hobj) \<times> 'w"
  k_AI_init :: "pyval \<Rightarrow> pyval \<Rightarrow> bool \<Rightarrow> 'w \<Rightarrow> (pyerr + hobj) \<times> 'w"

text \<open>
  Reading \<^verbatim>\<open>self.name\<close>: the property \<^verbatim>\<open>fullname\<close> comes first, then the ordinary
  lookup, and \<^verbatim>\<open>__getattr__\<close> when neither gives a value; an \<^verbatim>\<open>AttributeError\<close> out
  of the property's getter also ends in \<^verbatim>\<open>__getattr__\<close>. Where the source calls a method
  (\<^verbatim>\<open>self._populate(...)\<close>), the model calls the method of the class.
\<close>

definition obj_getattr_body :: "'w callees \<Rightarrow> string \<Rightarrow> 'w st \<Rightarrow> ('w, pyval) res" where
  "obj_getattr_body k name s =
     (if name = ''fullname'' then
        (case k_fullname k s of
           (Inl AttributeError, s1) \<Rightarrow> k_dunder_getattr k name s1
         | r \<Rightarrow> r)
      else
        (case lookup (fst s) name of
           Some v \<Rightarrow> ret v s
         | None \<Rightarrow> k_dunder_getattr k name s))"

text \<open>
  \<^verbatim>\<open>
  def __getattr__(self, attr):
      if attr != '__setstate__' and not self._has_fetched:
          self._has_fetched = self._populate(None, True)
          return getattr(self, attr)
      msg = '\'{0}\' has no attribute \'{1}\''.format(type(self), attr)
      raise AttributeError(msg)
  \<close>
\<close>

definition dunder_getattr_body :: "'w callees \<Rightarrow> string \<Rightarrow> 'w st \<Rightarrow> ('w, pyval) res" where
  "dunder_getattr_body k attr s =
     (if attr = ''__setstate__'' then raise AttributeError s
      else
        on_ok (k_obj_getattr k ''_has_fetched'' s) (\<lambda>has_fetched s1.
          if truthy has_fetched then raise AttributeError s1
          else
            on_ok (k_populate k PNone True s1) (\<lambda>b s2.
            on_ok (k_dunder_setattr k ''_has_fetched'' (PBool b) s2) (\<lambda>u s3.
            k_obj_getattr k attr s3))))"

text \<open>
  Reading \<^verbatim>\<open>v.name\<close> on any value, for the names the code reads on what it takes for
  the session and its configuration (\<^verbatim>\<open>config\<close>, \<^verbatim>\<open>has_scope\<close>,
  \<^verbatim>\<open>store_json_result\<close>, \<^verbatim>\<open>by_object\<close>, \<^verbatim>\<open>request_json\<close>, \<^verbatim>\<open>items\<close>): a session
  has a \<^verbatim>\<open>config\<close> and no \<^verbatim>\<open>has_scope\<close>, and no built-in value has any of them.
\<close>

definition py_getattr_body ::
  "'w env \<Rightarrow> 'w callees \<Rightarrow> pyval \<Rightarrow> string \<Rightarrow> 'w \<Rightarrow> (pyerr + pyval) \<times> 'w" where
  "py_getattr_body e k v name w =
     (case v of
        PObj c a \<Rightarrow> on_ok (on_self (c, a) (k_obj_getattr k name) w) (\<lambda>(x, obj'). ret x)
      | PSession \<Rightarrow> (if name = ''config'' then ret PConfig w else raise AttributeError w)
      | PConfig \<Rightarrow>
          (if name = ''store_json_result'' then ret (PBool (store_json_result e)) w
           else raise AttributeError w)
      | _ \<Rightarrow> raise AttributeError w)"

text \<open>\<^verbatim>\<open>config.by_object[cls]\<close>.\<close>

definition by_object_lookup ::
  "'w callees \<Rightarrow> pyval \<Rightarrow> hclass \<Rightarrow> 'w \<Rightarrow> (pyerr + pyval) \<times> 'w" where
  "by_object_lookup k config c w =
     (case config of
        PConfig \<Rightarrow>
          (case map_of by_object c of
             None \<Rightarrow> raise KeyError w
           | Some kind \<Rightarrow> ret (PStr kind) w)
      | _ \<Rightarrow>
          on_ok (k_py_getattr k config ''by_object'' w) (\<lambda>table.
          lift_res (py_getitem_class table c)))"

text \<open>
  \<^verbatim>\<open>
  @property
  def fullname(self):
      by_object = self.session.config.by_object
      return '{0}_{1}'.format(by_object[self.__class__], self.id)
  \<close>
\<close>

definition fullname_body :: "'w callees \<Rightarrow> 'w st \<Rightarrow> ('w, pyval) res" where
  "fullname_body k s =
     on_ok (k_obj_getattr k ''session'' s) (\<lambda>session s1.
     on_ok (in_world (k_py_getattr k session ''config'') s1) (\<lambda>config s2.
     on_ok (in_world (by_object_lookup k config (fst (fst s2))) s2) (\<lambda>kind s3.
     on_ok (k_obj_getattr k ''id'' s3) (\<lambda>ident s4.
     on_ok (in_world (k_py_str k kind) s4) (\<lambda>str0 s5.
     on_ok (in_world (k_py_str k ident) s5) (\<lambda>str1.
     ret (PStr (str0 @ ''_'' @ str1))))))))"

text \<open>
  Formatting a value with \<^verbatim>\<open>{0}\<close>: Python's \<^verbatim>\<open>str\<close>, which on an object is
  \<^verbatim>\<open>
  def __str__(self):
      retval = self.__unicode__()
      ...
  \<close>
  where no class defines \<^verbatim>\<open>__unicode__\<close> and a value found under that name is not
  callable.
\<close>

definition py_str_body ::
  "'w env \<Rightarrow> 'w callees \<Rightarrow> pyval \<Rightarrow> 'w \<Rightarrow> (pyerr + string) \<times> 'w" where
  "py_str_body e k v w =
     (case v of
        PObj c a \<Rightarrow>
          on_ok (on_self (c, a) (k_obj_getattr k ''__unicode__'') w) (\<lambda>m. raise TypeError)
      | PStr str \<Rightarrow> ret str w
      | _ \<Rightarrow> ret (builtin_str e v) w)"

text \<open>\<^verbatim>\<open>session.request_json(url, params=params, as_objects=False)\<close>.\<close>

definition call_request_json ::
  "'w env \<Rightarrow> 'w callees \<Rightarrow> pyval \<Rightarrow> pyval \<Rightarrow> pyval \<Rightarrow> 'w \<Rightarrow> (pyerr + pyval) \<times> 'w" where
  "call_request_json e k session url params w =
     (case session of
        PSession \<Rightarrow> request_json e w url params
      | _ \<Rightarrow> on_ok (k_py_getattr k session ''request_json'' w) (\<lambda>m. raise TypeError))"

text \<open>
  \<^verbatim>\<open>
  def _get_json_dict(self):
      scope = self.session.has_scope
      params = {'uniq': self._uniq} if self._uniq else {}
      response = self.session.request_json(
          self._info_url, params=params, as_objects=False)
      return response['data']
  \<close>
\<close>

definition get_json_dict_body :: "'w env \<Rightarrow> 'w callees \<Rightarrow> 'w st \<Rightarrow> ('w, pyval) res" where
  "get_json_dict_body e k s =
     on_ok (k_obj_getattr k ''session'' s) (\<lambda>session s1.
     on_ok (in_world (k_py_getattr k session ''has_scope'') s1) (\<lambda>scope s2.
     on_ok (k_obj_getattr k ''_uniq'' s2) (\<lambda>uniq s3.
     on_ok (if truthy uniq
            then on_ok (k_obj_getattr k ''_uniq'' s3) (\<lambda>uniq'. ret (PDict [(''uniq'', uniq')]))
            else ret (PDict []) s3) (\<lambda>params s4.
     on_ok (k_obj_getattr k ''session'' s4) (\<lambda>session' s5.
     on_ok (k_obj_getattr k ''_info_url'' s5) (\<lambda>info_url s6.
     on_ok (in_world (call_request_json e k session' info_url params) s6) (\<lambda>response.
     lift_res (subscript e response ''data''))))))))"

text \<open>\<^verbatim>\<open>six.iteritems(json_dict)\<close>: the items of a dictionary; any other value has no
  callable \<^verbatim>\<open>items\<close>.\<close>

definition dict_items ::
  "'w callees \<Rightarrow> pyval \<Rightarrow> 'w \<Rightarrow> (pyerr + (string \<times> pyval) list) \<times> 'w" where
  "dict_items k v w =
     (case v of
        PDict kvs \<Rightarrow> ret kvs w
      | PObj c a \<Rightarrow> on_ok (k_py_getattr k v ''items'' w) (\<lambda>m. raise TypeError)
      | _ \<Rightarrow> raise AttributeError w)"

text \<open>
  The loop of \<^verbatim>\<open>_populate\<close>:
  \<^verbatim>\<open>
  for name, value in six.iteritems(json_dict):
      if self._underscore_names and name in self._underscore_names:
          name = '_' + name
      setattr(self, name, value)
  \<close>
\<close>

primrec populate_items ::
  "'w callees \<Rightarrow> (string \<times> pyval) list \<Rightarrow> 'w st \<Rightarrow> ('w, unit) res" where
  "populate_items k [] s = ret () s"
| "populate_items k (item # items) s =
     on_ok (k_obj_getattr k ''_underscore_names'' s) (\<lambda>names s1.
     on_ok (if truthy names
            then on_ok (k_obj_getattr k ''_underscore_names'' s1) (\<lambda>names'.
                 lift_res (py_contains names' (fst item)))
            else ret False s1) (\<lambda>underscore s2.
     on_ok (k_dunder_setattr k (if underscore then ''_'' @ fst item else fst item) (snd item) s2)
       (\<lambda>u s3. populate_items k items s3)))"

text \<open>
  \<^verbatim>\<open>
  def _populate(self, json_dict, fetch):
      if json_dict is None:
          json_dict = self._get_json_dict() if fetch else {}
      if self.session.config.store_json_result is True:
          self.json_dict = json_dict
      else:
          self.json_dict = None
      if isinstance(json_dict, list):
          json_dict = {'_tmp': json_dict}
      for name, value in six.iteritems(json_dict):
          ...
      self._post_populate(fetch)
      return bool(json_dict) or fetch
  \<close>
  \<^verbatim>\<open>_post_populate\<close> does nothing.
\<close>

definition populate_body ::
  "'w callees \<Rightarrow> pyval \<Rightarrow> bool \<Rightarrow> 'w st \<Rightarrow> ('w, bool) res" where
  "populate_body k json_dict fetch s =
     on_ok (if json_dict = PNone
            then (if fetch then k_get_json_dict k s else ret (PDict []) s)
            else ret json_dict s) (\<lambda>json_dict1 s1.
     on_ok (k_obj_getattr k ''session'' s1) (\<lambda>session s2.
     on_ok (in_world (k_py_getattr k session ''config'') s2) (\<lambda>config s3.
     on_ok (in_world (k_py_getattr k config ''store_json_result'') s3) (\<lambda>flag s4.
     on_ok (k_dunder_setattr k ''json_dict''
              (if flag = PBool True then json_dict1 else PNone) s4) (\<lambda>u s5.
     let json_dict2 = (case json_dict1 of
                         PList xs \<Rightarrow> PDict [(''_tmp'', json_dict1)]
                       | _ \<Rightarrow> json_dict1)
     in on_ok (in_world (dict_items k json_dict2) s5) (\<lambda>items s6.
        on_ok (populate_items k items s6) (\<lambda>u.
        ret (truthy json_dict2 \<or> fetch))))))))"

text \<open>
  \<^verbatim>\<open>
  def __setattr__(self, name, value):
      if value and name in HUTOMA_KEYS:
          if isinstance(value, bool):
              pass
          elif not value or value == '[deleted]':
              value = None
          else:
              value = AI(self.session, value, fetch=False)
      object.__setattr__(self, name, value)
  \<close>
  \<^verbatim>\<open>HUTOMA_KEYS\<close> is the string \<^verbatim>\<open>'AIID'\<close>, so \<^verbatim>\<open>name in HUTOMA_KEYS\<close> is a
  substring test.
\<close>

definition dunder_setattr_body ::
  "'w callees \<Rightarrow> string \<Rightarrow> pyval \<Rightarrow> 'w st \<Rightarrow> ('w, unit) res" where
  "dunder_setattr_body k name v s =
     on_ok (if truthy v \<and> str_contains HUTOMA_KEYS name then
              (if is_bool v then ret v s
               else if \<not> truthy v \<or> v = PStr ''[deleted]'' then ret PNone s
               else
                 on_ok (k_obj_getattr k ''session'' s) (\<lambda>session s1.
                 on_ok (in_world (k_AI_init k session v False) s1) (\<lambda>ai.
                 ret (PObj (fst ai) (snd ai)))))
            else ret v s) (\<lambda>v' s2.
     case object_setattr name v' (fst s2) of
       Inl err \<Rightarrow> raise err s2
     | Inr obj' \<Rightarrow> ret () (obj', snd s2))"

text \<open>
  \<^verbatim>\<open>
  def __init__(self, hutoma_session, json_dict=None, fetch=True,
               info_url=None, underscore_names=None, uniq=None):
      self._info_url = info_url or hutoma_session.config['info']
      self.hutoma_session = hutoma_session
      self._underscore_names = underscore_names
      self._uniq = uniq
      self._has_fetched = self._populate(json_dict, fetch)
  \<close>
\<close>

definition init_body ::
  "'w env \<Rightarrow> 'w callees \<Rightarrow> hclass \<Rightarrow> pyval \<Rightarrow> pyval \<Rightarrow> bool \<Rightarrow> pyval \<Rightarrow> pyval \<Rightarrow> pyval
     \<Rightarrow> 'w \<Rightarrow> (pyerr + hobj) \<times> 'w" where
  "init_body e k c hutoma_session json_dict fetch info_url underscore_names uniq w =
     on_ok (if truthy info_url then ret info_url w
            else on_ok (k_py_getattr k hutoma_session ''config'' w) (\<lambda>config.
                 lift_res (subscript e config ''info''))) (\<lambda>url w0.
     on_ok (on_self (c, [])
              (\<lambda>s1.
                 on_ok (k_dunder_setattr k ''_info_url'' url s1) (\<lambda>u s2.
                 on_ok (k_dunder_setattr k ''hutoma_session'' hutoma_session s2) (\<lambda>u s3.
                 on_ok (k_dunder_setattr k ''_underscore_names'' underscore_names s3) (\<lambda>u s4.
                 on_ok (k_dunder_setattr k ''_uniq'' uniq s4) (\<lambda>u s5.
                 on_ok (k_populate k json_dict fetch s5) (\<lambda>b s6.
                 k_dunder_setattr k ''_has_fetched'' (PBool b) s6))))))
              w0) (\<lambda>(u, self). ret self))"

text \<open>
  \<^verbatim>\<open>
  class AI(Editable):
      def __init__(self, session, json_dict=None, fetch=False):
          super(AI, self).__init__(session, json_dict, fetch)
  \<close>
\<close>

definition AI_init_body ::
  "'w callees \<Rightarrow> pyval \<Rightarrow> pyval \<Rightarrow> bool \<Rightarrow> 'w \<Rightarrow> (pyerr + hobj) \<times> 'w" where
  "AI_init_body k session json_dict fetch w =
     k_init k AI session json_dict fetch PNone PNone PNone w"

primrec depth :: "'w env \<Rightarrow> nat \<Rightarrow> 'w callees" where
  "depth e 0 =
     \<lparr>k_obj_getattr = (\<lambda>name. raise RecursionError),
      k_dunder_getattr = (\<lambda>name. raise RecursionError),
      k_fullname = raise RecursionError,
      k_get_json_dict = raise RecursionError,
      k_populate = (\<lambda>json_dict fetch. raise RecursionError),
      k_dunder_setattr = (\<lambda>name v. raise RecursionError),
      k_py_getattr = (\<lambda>v name. raise RecursionError),
      k_py_str = (\<lambda>v. raise RecursionError),
      k_init = (\<lambda>c session json_dict fetch info_url underscore_names uniq.
                  raise RecursionError),
      k_AI_init = (\<lambda>session json_dict fetch. raise RecursionError)\<rparr>"
| "depth e (Suc d) =
     \<lparr>k_obj_getattr = obj_getattr_body (depth e d),
      k_dunder_getattr = dunder_getattr_body (depth e d),
      k_fullname = fullname_body (depth e d),
      k_get_json_dict = get_json_dict_body e (depth e d),
      k_populate = populate_body (depth e d),
      k_dunder_setattr = dunder_setattr_body (depth e d),
      k_py_getattr = py_getattr_body e (depth e d),
      k_py_str = py_str_body e (depth e d),
      k_init = init_body e (depth e d),
      k_AI_init = AI_init_body (depth e d)\<rparr>"

text \<open>The operations on an object, at nesting depth \<open>d\<close>.\<close>

definition getattr :: "'w env \<Rightarrow> nat \<Rightarrow> string \<Rightarrow> 'w st \<Rightarrow> ('w, pyval) res" where
  "getattr e d name s = k_obj_getattr (depth e d) name s"

definition setattr :: "'w env \<Rightarrow> nat \<Rightarrow> string \<Rightarrow> pyval \<Rightarrow> 'w st \<Rightarrow> ('w, unit) res" where
  "setattr e d name v s = k_dunder_setattr (depth e d) name v s"

definition fullname :: "'w env \<Rightarrow> nat \<Rightarrow> 'w st \<Rightarrow> ('w, pyval) res" where
  "fullname e d s = getattr e d ''fullname'' s"

text \<open>
  \<^verbatim>\<open>HutomaObject(hutoma_session, json_dict, fetch, info_url, underscore_names, uniq)\<close>
  for the classes that inherit \<^verbatim>\<open>__init__\<close>, and \<^verbatim>\<open>AI(session, json_dict, fetch)\<close>.
\<close>

definition new_object ::
  "'w env \<Rightarrow> nat \<Rightarrow> hclass \<Rightarrow> pyval \<Rightarrow> pyval \<Rightarrow> bool \<Rightarrow> pyval \<Rightarrow> pyval \<Rightarrow> pyval \<Rightarrow> 'w
     \<Rightarrow> (pyerr + hobj) \<times> 'w" where
  "new_object e d c hutoma_session json_dict fetch info_url underscore_names uniq w =
     k_init (depth e d) c hutoma_session json_dict fetch info_url underscore_names uniq w"

definition new_AI ::
  "'w env \<Rightarrow> nat \<Rightarrow> pyval \<Rightarrow> pyval \<Rightarrow> bool \<Rightarrow> 'w \<Rightarrow> (pyerr + hobj) \<times> 'w" where
  "new_AI e d session json_dict fetch w = k_AI_init (depth e d) session json_dict fetch w"

text \<open>
  \<^verbatim>\<open>
  @classmethod
  def from_api_response(cls, hutoma_session, json_dict):
      return cls(hutoma_session, json_dict=json_dict)
  \<close>
  The other arguments take the defaults of the class: \<^verbatim>\<open>fetch=False\<close> for \<^verbatim>\<open>AI\<close>,
  \<^verbatim>\<open>fetch=True\<close> for the classes that inherit \<^verbatim>\<open>__init__\<close>.
\<close>

definition from_api_response ::
  "'w env \<Rightarrow> nat \<Rightarrow> hclass \<Rightarrow> pyval \<Rightarrow> pyval \<Rightarrow> 'w \<Rightarrow> (pyerr + hobj) \<times> 'w" where
  "from_api_response e d cls hutoma_session json_dict w =
     (if cls = AI then new_AI e d hutoma_session json_dict False w
      else new_object e d cls hutoma_session json_dict True PNone PNone PNone w)"

text \<open>
  \<^verbatim>\<open>
  def __eq__(self, other):
      return (isinstance(other, HutomaObject) and
              self.fullname == other.fullname)
  \<close>
  Every class of \<^verbatim>\<open>objects.py\<close> is a subclass of \<^verbatim>\<open>HutomaObject\<close>. The two fullnames
  are strings when the property returns.
\<close>

definition dunder_eq :: "'w env \<Rightarrow> nat \<Rightarrow> pyval \<Rightarrow> 'w st \<Rightarrow> ('w, bool) res" where
  "dunder_eq e d other s =
     (case other of
        PObj c a \<Rightarrow>
          on_ok (fullname e d s) (\<lambda>mine s1.
          on_ok (in_world (on_self (c, a) (fullname e d)) s1) (\<lambda>(theirs, other').
          ret (mine = theirs)))
      | _ \<Rightarrow> ret False s)"

subsection \<open>\<^verbatim>\<open>__init__.py\<close>: the materializer\<close>

text \<open>
  \<^verbatim>\<open>self.config.by_kind[kind]\<close>: a list, a dictionary or an object is not hashable
  (\<^verbatim>\<open>TypeError\<close>); any other value that is no key of the table is a \<^verbatim>\<open>KeyError\<close>.
\<close>

fun by_kind_lookup :: "pyval \<Rightarrow> pyerr + hclass" where
  "by_kind_lookup (PStr kind) =
     (case map_of by_kind kind of None \<Rightarrow> Inl KeyError | Some c \<Rightarrow> Inr c)"
| "by_kind_lookup (PList xs) = Inl TypeError"
| "by_kind_lookup (PDict kvs) = Inl TypeError"
| "by_kind_lookup (PObj c a) = Inl TypeError"
| "by_kind_lookup v = Inl KeyError"

text \<open>
  \<^verbatim>\<open>
  def _json_hutoma_objecter(self, json_data):
      try:
          object_class = self.config.by_kind[json_data['kind']]
      except KeyError:
          if 'json' in json_data:
              if len(json_data) != 1:
                  msg = 'Unknown object type: {0}'.format(json_data)
                  warn_explicit(msg, UserWarning, '', 0)
              return json_data['json']
      else:
          return object_class.from_api_response(self, json_data['data'])
      return json_data
  \<close>
  The result comes with the warnings emitted, each the mapping it is about. An exception
  raised in the \<^verbatim>\<open>else\<close> part is not caught by the \<^verbatim>\<open>except\<close>.
\<close>

definition json_hutoma_objecter ::
  "'w env \<Rightarrow> nat \<Rightarrow> (string \<times> pyval) list \<Rightarrow> 'w
     \<Rightarrow> (pyerr + pyval) \<times> (string \<times> pyval) list list \<times> 'w" where
  "json_hutoma_objecter e d json_data w =
     (case (case map_of json_data ''kind'' of
              None \<Rightarrow> Inl KeyError
            | Some kind \<Rightarrow> by_kind_lookup kind) of
        Inl KeyError \<Rightarrow>
          (case map_of json_data ''json'' of
             Some inner \<Rightarrow>
               (Inr inner, if length json_data \<noteq> 1 then [json_data] else [], w)
           | None \<Rightarrow> (Inr (PDict json_data), [], w))
      | Inl err \<Rightarrow> (Inl err, [], w)
      | Inr object_class \<Rightarrow>
          (case map_of json_data ''data'' of
             None \<Rightarrow> (Inl KeyError, [], w)
           | Some data \<Rightarrow>
               (case from_api_response e d object_class PSession data w of
                  (Inl err, w') \<Rightarrow> (Inl err, [], w')
                | (Inr obj, w') \<Rightarrow> (Inr (PObj (fst obj) (snd obj)), [], w'))))"

subsection \<open>Auxiliary notions for the statements\<close>

text \<open>A call raised and left the state as it was.\<close>

definition fails :: "(pyerr + 'a) \<times> 's \<Rightarrow> 's \<Rightarrow> bool" where
  "fails r s \<longleftrightarrow> isl (fst r) \<and> snd r = s"

text \<open>
  Surroundings for concrete runs: the world is the number of fetches made so far, and
  every fetch is answered with \<^verbatim>\<open>{"data": {"id": "abc"}}\<close>.
\<close>

definition test_env :: "nat env" where
  "test_env =
     \<lparr>store_json_result = False, api_url = ''https://api.hutoma.test/'',
      env_urljoin = (\<lambda>base path. base @ path), builtin_str = (\<lambda>v. []),
      request_json = (\<lambda>n url params.
        (Inr (PDict [(''data'', PDict [(''id'', PStr ''abc'')])]), Suc n))\<rparr>"

section \<open>Properties\<close>

subsection \<open>URL normalisation\<close>

lemma endswith_append: "endswith (s @ suf) suf"
  by (simp add: endswith_def)

lemma endswith_iff: "endswith s suf \<longleftrightarrow> (\<exists>p. s = p @ suf)"
proof
  assume "endswith s suf"
  then have "s = take (length s - length suf) s @ suf"
    by (metis append_take_drop_id endswith_def)
  then show "\<exists>p. s = p @ suf" ..
next
  assume "\<exists>p. s = p @ suf"
  then show "endswith s suf" by (auto simp: endswith_append)
qed

lemma normalize_url_fixed:
  "\<not> endswith v ''.json'' \<Longrightarrow> \<not> endswith v ''/'' \<Longrightarrow> normalize_url v = v"
  by (simp add: normalize_url_def)

lemma normalize_url_shorter:
  "endswith v ''.json'' \<or> endswith v ''/'' \<Longrightarrow> length (normalize_url v) < length v"
  by (auto simp: normalize_url_def Let_def drop_last_def endswith_def)

text \<open>
  C5, as stated, fails: normalisation tests for \<^verbatim>\<open>.json\<close> first and for the slash
  second, once each, so a URL that ends in \<^verbatim>\<open>.json/\<close> loses the slash in the first
  pass and the \<^verbatim>\<open>.json\<close> only in a second one.
\<close>

theorem normalize_url_not_idempotent:
  "normalize_url ''https://x/y.json/'' = ''https://x/y.json''
   \<and> normalize_url (normalize_url ''https://x/y.json/'') = ''https://x/y''
   \<and> normalize_url (normalize_url ''https://x/y.json/'') \<noteq> normalize_url ''https://x/y.json/''"
  by (simp add: normalize_url_def endswith_def drop_last_def)

text \<open>
  C5 (amended): a second pass of \<open>normalize_url\<close> changes nothing exactly when the first
  pass left neither a trailing \<^verbatim>\<open>.json\<close> nor a trailing slash; and the three spellings
  \<^verbatim>\<open>https://x/y.json\<close>, \<^verbatim>\<open>https://x/y\<close> and \<^verbatim>\<open>https://x/y/\<close> have the same normal form,
  \<^verbatim>\<open>https://x/y\<close>, on which normalisation is idempotent.
\<close>

theorem normalize_url_idempotent_iff:
  "(normalize_url (normalize_url u) = normalize_url u \<longleftrightarrow>
      \<not> endswith (normalize_url u) ''.json'' \<and> \<not> endswith (normalize_url u) ''/'')
   \<and> normalize_url ''https://x/y.json'' = ''https://x/y''
   \<and> normalize_url ''https://x/y'' = ''https://x/y''
   \<and> normalize_url ''https://x/y/'' = ''https://x/y''
   \<and> normalize_url (normalize_url ''https://x/y.json'') = normalize_url ''https://x/y.json''"
proof -
  have "normalize_url (normalize_url u) = normalize_url u \<longleftrightarrow>
      \<not> endswith (normalize_url u) ''.json'' \<and> \<not> endswith (normalize_url u) ''/''"
    using normalize_url_fixed [of "normalize_url u"]
      normalize_url_shorter [of "normalize_url u"]
    by (metis less_irrefl)
  moreover have "normalize_url ''https://x/y.json'' = ''https://x/y''"
    by (simp add: normalize_url_def endswith_def drop_last_def)
  moreover have "normalize_url ''https://x/y'' = ''https://x/y''"
    by (simp add: normalize_url_def endswith_def drop_last_def)
  moreover have "normalize_url ''https://x/y/'' = ''https://x/y''"
    by (simp add: normalize_url_def endswith_def drop_last_def)
  ultimately show ?thesis by simp
qed

subsection \<open>Status codes\<close>

text \<open>
  C2, as stated, fails: a status that is neither 2xx nor in the range 400 to 599 raises
  nothing. Status 304 is not a redirect that the loop follows, and the dispatcher
  returns on it as it does on 200.
\<close>

theorem status_304_raises_nothing:
  "\<not> (200 \<le> status_code (mk_response 304 []) \<and> status_code (mk_response 304 []) < 300)
   \<and> status_code (mk_response 304 []) \<notin> {301, 302, 307}
   \<and> raise_response_exceptions (mk_response 304 []) = Inr ()"
  by (simp add: raise_response_exceptions_def raise_for_status_def mk_response_def)

text \<open>
  C2 (amended): status 403 raises \<open>Forbidden\<close>, 404 raises \<open>NotFound\<close>, any other
  status from 400 to 599 raises the generic \<open>HTTPException\<close>, each holding the raw
  response, and every other status (2xx, but also 1xx, 3xx and 600 and above) raises
  nothing.
\<close>

theorem status_code_mapping:
  "raise_response_exceptions r =
     (if status_code r = 403 then Inl (Forbidden r)
      else if status_code r = 404 then Inl (NotFound r)
      else if 400 \<le> status_code r \<and> status_code r < 600 then Inl (HTTPException r)
      else Inr ())"
  by (simp add: raise_response_exceptions_def raise_for_status_def)

subsection \<open>Redirects and retries\<close>

lemma redirect_loop_final:
  assumes "url \<noteq> []"
    and "handler_request cl (handler_state st) url (normalize_url url) = (resp, h')"
    and "status_code resp \<notin> {301, 302, 307}"
  shows "redirect_loop cl (Some url) prev st
           = Some (Inr (Some resp), st\<lparr>request_url := url, handler_state := h'\<rparr>)"
proof -
  have "redirect_loop cl None (Some resp) (st\<lparr>request_url := url, handler_state := h'\<rparr>)
          = Some (Inr (Some resp), st\<lparr>request_url := url, handler_state := h'\<rparr>)"
    by (subst redirect_loop.simps) (simp add: truthy_url_def)
  with assms show ?thesis
    by (subst redirect_loop.simps) (simp add: truthy_url_def raise_redirect_exceptions_def)
qed

lemma redirect_loop_same_url:
  assumes "url \<noteq> []"
    and "handler_request cl (handler_state st) url (normalize_url url) = (resp, h')"
    and "status_code resp \<in> {301, 302, 307}"
    and "location resp = Some loc"
    and "urljoin cl (resp_url resp) loc = url"
  shows "redirect_loop cl (Some url) prev st
           = Some (Inl AssertionError, st\<lparr>request_url := url, handler_state := h'\<rparr>)"
  using assms
  by (subst redirect_loop.simps) (auto simp: truthy_url_def raise_redirect_exceptions_def)

lemma attempt_final:
  assumes "request_url st \<noteq> []"
    and "handler_request cl (handler_state st) (request_url st) (normalize_url (request_url st))
           = (resp, h')"
    and "status_code resp \<notin> {301, 302, 307}"
  shows "attempt cl raw st =
     (case raise_response_exceptions resp of
        Inl e \<Rightarrow> Some (Inl e, st\<lparr>handler_state := h'\<rparr>)
      | Inr u \<Rightarrow>
          let st2 = st\<lparr>handler_state := h', http_cookies := http_cookies st ++ resp_cookies resp\<rparr>
          in if raw then Some (Inr (Raw resp), st2)
             else (case sub_entities (name2codepoint cl) (resp_text resp) of
                     Inl e \<Rightarrow> Some (Inl e, st2)
                   | Inr t \<Rightarrow> Some (Inr (Body t), st2)))"
  using redirect_loop_final [OF assms, of None]
  by (simp add: attempt_def handle_redirect_def Let_def split: sum.splits)

lemma request_loop_unfold:
  "request_loop cl raw n st =
     (case retried (attempt cl raw st) of
        None \<Rightarrow> attempt cl raw st
      | Some st' \<Rightarrow> if n = 1 then attempt cl raw st else request_loop cl raw (n - 1) st')"
  by (subst request_loop.simps)
     (auto simp: retried_def split: option.splits sum.splits prod.splits)


lemma request_three_attempts:
  "request cl url raw True st =
     (let a1 = attempt cl raw (st\<lparr>request_url := url\<rparr>) in
      case retried a1 of
        None \<Rightarrow> a1
      | Some st1 \<Rightarrow>
          (let a2 = attempt cl raw st1 in
           case retried a2 of
             None \<Rightarrow> a2
           | Some st2 \<Rightarrow> attempt cl raw st2))"
proof -
  have one: "request_loop cl raw 1 s = attempt cl raw s" for s
    by (subst request_loop_unfold) (simp split: option.splits)
  have two: "request_loop cl raw 2 s =
      (case retried (attempt cl raw s) of None \<Rightarrow> attempt cl raw s
       | Some s' \<Rightarrow> attempt cl raw s')" for s
    by (subst request_loop_unfold) (simp add: one split: option.splits)
  show ?thesis
    unfolding request_def
    by (subst request_loop_unfold) (simp add: two Let_def split: option.splits)
qed

lemma request_one_attempt:
  "request cl url raw False st = attempt cl raw (st\<lparr>request_url := url\<rparr>)"
  unfolding request_def
  by (subst request_loop_unfold) (simp split: option.splits)

lemma retried_iff:
  "retried outcome = Some st' \<longleftrightarrow>
     (\<exists>error raw. outcome = Some (Inl error, st') \<and> http_raw error = Some raw
                  \<and> status_code raw \<in> {502, 503, 504})"
  by (auto simp: retried_def RETRY_CODES_def split: option.splits sum.splits prod.splits
        if_splits)

lemma status_code_mk_response: "status_code (mk_response code body) = code"
  by (simp add: mk_response_def)

lemma attempt_scripted:
  assumes "code \<notin> {301, 302, 307}"
  shows "attempt test_client raw
     \<lparr>handler_state = (mk_response code body # rs, log), request_url = ''https://x/y'',
      http_cookies = Map.empty\<rparr> =
     (case raise_response_exceptions (mk_response code body) of
        Inl e \<Rightarrow> Some (Inl e, \<lparr>handler_state = (rs, log @ [''https://x/y'']),
                   request_url = ''https://x/y'', http_cookies = Map.empty\<rparr>)
      | Inr u \<Rightarrow>
          if raw then Some (Inr (Raw (mk_response code body)),
                   \<lparr>handler_state = (rs, log @ [''https://x/y'']),
                    request_url = ''https://x/y'', http_cookies = Map.empty\<rparr>)
          else
          (case sub_entities name2codepoint_excerpt (ustr body) of
             Inl e \<Rightarrow> Some (Inl e, \<lparr>handler_state = (rs, log @ [''https://x/y'']),
                   request_url = ''https://x/y'', http_cookies = Map.empty\<rparr>)
           | Inr t \<Rightarrow> Some (Inr (Body t), \<lparr>handler_state = (rs, log @ [''https://x/y'']),
                   request_url = ''https://x/y'', http_cookies = Map.empty\<rparr>)))"
  using assms
  by (subst attempt_final [where resp = "mk_response code body"
        and h' = "(rs, log @ [''https://x/y''])"])
     (auto simp: test_client_def scripted_def mk_response_def Let_def split: sum.splits)

lemma run_503_503_200:
  "request test_client ''https://x/y'' False True
     (test_session [mk_response 503 [], mk_response 503 [], mk_response 200 ''ok''])
   = Some (Inr (Body (ustr ''ok'')),
       \<lparr>handler_state = ([], [''https://x/y'', ''https://x/y'', ''https://x/y'']),
        request_url = ''https://x/y'', http_cookies = Map.empty\<rparr>)"
proof -
  let ?st = "\<lambda>rs log. \<lparr>handler_state = (rs, log), request_url = ''https://x/y'',
        http_cookies = Map.empty\<rparr> :: (response list \<times> string list) session"
  let ?u = "''https://x/y''"
  have s: "sub_entities name2codepoint_excerpt (ustr ''ok'') = Inr (ustr ''ok'')"
    by (simp add: ustr_def ampersand_def semicolon_def)
  have a1: "attempt test_client False
      (?st [mk_response 503 [], mk_response 503 [], mk_response 200 ''ok''] [])
      = Some (Inl (HTTPException (mk_response 503 [])),
              ?st [mk_response 503 [], mk_response 200 ''ok''] [?u])"
    by (simp add: attempt_scripted raise_response_exceptions_def raise_for_status_def
          status_code_mk_response)
  have a2: "attempt test_client False (?st [mk_response 503 [], mk_response 200 ''ok''] [?u])
      = Some (Inl (HTTPException (mk_response 503 [])), ?st [mk_response 200 ''ok''] [?u, ?u])"
    by (simp add: attempt_scripted raise_response_exceptions_def raise_for_status_def
          status_code_mk_response)
  have a3: "attempt test_client False (?st [mk_response 200 ''ok''] [?u, ?u])
      = Some (Inr (Body (ustr ''ok'')), ?st [] [?u, ?u, ?u])"
    by (simp add: attempt_scripted s raise_response_exceptions_def raise_for_status_def
          status_code_mk_response)
  show ?thesis
    unfolding request_three_attempts test_session_def
    by (simp add: a1 a2 a3 Let_def retried_def RETRY_CODES_def status_code_mk_response)
qed

lemma run_503_no_retry:
  "request test_client ''https://x/y'' False False
     (test_session [mk_response 503 [], mk_response 503 [], mk_response 200 ''ok''])
   = Some (Inl (HTTPException (mk_response 503 [])),
       \<lparr>handler_state = ([mk_response 503 [], mk_response 200 ''ok''], [''https://x/y'']),
        request_url = ''https://x/y'', http_cookies = Map.empty\<rparr>)"
  unfolding request_one_attempt test_session_def
  by (simp add: attempt_scripted raise_response_exceptions_def raise_for_status_def
        status_code_mk_response)

text \<open>
  C1: with \<open>retry_on_error\<close> the request is attempted at most three times; an attempt is
  followed by another exactly when it raised an exception of the \<open>HTTPException\<close> family
  whose status is 502, 503 or 504 (\<open>retried\<close>), and the next attempt starts from the
  state, and so the request, that the failed one left; any other outcome, and the
  outcome of the third attempt, is the outcome of the request. Without
  \<open>retry_on_error\<close> the outcome of the first attempt is the outcome of the request.
  A server that answers 503, 503, 200 is asked three times for the same URL and the
  request succeeds; without retries the first 503 is raised after one request.
\<close>

theorem retry_policy:
  "request cl url raw True st =
     (let a1 = attempt cl raw (st\<lparr>request_url := url\<rparr>) in
      case retried a1 of
        None \<Rightarrow> a1
      | Some st1 \<Rightarrow>
          (let a2 = attempt cl raw st1 in
           case retried a2 of
             None \<Rightarrow> a2
           | Some st2 \<Rightarrow> attempt cl raw st2))
   \<and> request cl url raw False st = attempt cl raw (st\<lparr>request_url := url\<rparr>)
   \<and> (retried outcome = Some st' \<longleftrightarrow>
        (\<exists>error r. outcome = Some (Inl error, st') \<and> http_raw error = Some r
                  \<and> status_code r \<in> {502, 503, 504}))
   \<and> request test_client ''https://x/y'' False True
        (test_session [mk_response 503 [], mk_response 503 [], mk_response 200 ''ok''])
      = Some (Inr (Body (ustr ''ok'')),
          \<lparr>handler_state = ([], [''https://x/y'', ''https://x/y'', ''https://x/y'']),
           request_url = ''https://x/y'', http_cookies = Map.empty\<rparr>)
   \<and> request test_client ''https://x/y'' False False
        (test_session [mk_response 503 [], mk_response 503 [], mk_response 200 ''ok''])
      = Some (Inl (HTTPException (mk_response 503 [])),
          \<lparr>handler_state = ([mk_response 503 [], mk_response 200 ''ok''], [''https://x/y'']),
           request_url = ''https://x/y'', http_cookies = Map.empty\<rparr>)"
  by (intro conjI request_three_attempts request_one_attempt retried_iff run_503_503_200
        run_503_no_retry)

text \<open>
  C6: when the handler answers a request for \<open>url\<close> with a redirect (301, 302 or 307)
  whose \<^verbatim>\<open>Location\<close>, resolved against the URL of the response, is \<open>url\<close> again, the
  redirect loop stops with \<open>AssertionError\<close> after this one request, at whatever point
  of a chain of redirects this happens, and so does the whole request: the exception is
  not of the \<open>HTTPException\<close> family and nothing is retried.
\<close>

theorem redirect_to_same_url_raises:
  assumes "url \<noteq> []"
    and "handler_request cl (handler_state st) url (normalize_url url) = (resp, h')"
    and "status_code resp \<in> {301, 302, 307}"
    and "location resp = Some loc"
    and "urljoin cl (resp_url resp) loc = url"
  shows "redirect_loop cl (Some url) prev st
           = Some (Inl AssertionError, st\<lparr>request_url := url, handler_state := h'\<rparr>)
       \<and> request cl url raw retry st
           = Some (Inl AssertionError, st\<lparr>request_url := url, handler_state := h'\<rparr>)"
proof -
  have a: "attempt cl raw (st\<lparr>request_url := url\<rparr>)
             = Some (Inl AssertionError, st\<lparr>request_url := url, handler_state := h'\<rparr>)"
    using redirect_loop_same_url [OF assms(1) _ assms(3-5), of "st\<lparr>request_url := url\<rparr>" h' None]
      assms(2)
    by (simp add: attempt_def handle_redirect_def)
  have "request cl url raw retry st
          = Some (Inl AssertionError, st\<lparr>request_url := url, handler_state := h'\<rparr>)"
    unfolding request_def
    by (subst request_loop_unfold) (simp add: a retried_def)
  with redirect_loop_same_url [OF assms] show ?thesis by simp
qed

theorem redirect_to_same_url_raises_witness:
  "request test_client ''https://x/y'' False True
     (test_session [(mk_response 302 [])\<lparr>location := Some ''https://x/y''\<rparr>])
   = Some (Inl AssertionError,
       \<lparr>handler_state = ([], [''https://x/y'']), request_url = ''https://x/y'',
        http_cookies = Map.empty\<rparr>)"
  using redirect_to_same_url_raises [where cl = test_client and url = "''https://x/y''"
      and st = "test_session [(mk_response 302 [])\<lparr>location := Some ''https://x/y''\<rparr>]"
      and resp = "(mk_response 302 [])\<lparr>location := Some ''https://x/y''\<rparr>"
      and h' = "([], [''https://x/y''])" and loc = "''https://x/y''"
      and raw = False and retry = True]
  by (simp add: test_client_def test_session_def scripted_def mk_response_def)

text \<open>
  C6 speaks of a redirect to the URL just requested, which is what the assertion
  compares. Two URLs that redirect to each other never fail it: the loop, and with it the
  request, does not return.
\<close>

lemma redirect_cycle_aux:
  assumes "redirect_loop cl url prev st = Some y"
  shows "\<not> (cl = ping_pong \<and> url \<in> {Some ''https://x/a'', Some ''https://x/b''})"
proof (rule redirect_loop.raw_induct
    [where P = "\<lambda>cl url prev st y.
        \<not> (cl = ping_pong \<and> url \<in> {Some ''https://x/a'', Some ''https://x/b''})",
      OF _ assms])
  fix f :: "unit client \<Rightarrow> string option \<Rightarrow> response option \<Rightarrow> unit session
              \<Rightarrow> ((pyerr + response option) \<times> unit session) option"
    and cl url prev st y
  assume IH: "\<And>cl url prev st y. f cl url prev st = Some y \<Longrightarrow>
      \<not> (cl = ping_pong \<and> url \<in> {Some ''https://x/a'', Some ''https://x/b''})"
    and body: "(if \<not> truthy_url url then Some (Inr prev, st)
      else let st1 = st\<lparr>request_url := the url\<rparr>;
               (resp, h') =
                 handler_request cl (handler_state st1) (request_url st1)
                  (normalize_url (request_url st1));
               st2 = st1\<lparr>handler_state := h'\<rparr>
           in case raise_redirect_exceptions (urljoin cl) resp of
              Inl e \<Rightarrow> Some (Inl e, st2)
              | Inr url' \<Rightarrow>
                  if url' = Some (request_url st2)
                  then Some (Inl AssertionError, st2)
                  else f cl url' (Some resp) st2) =
     Some y"
  show "\<not> (cl = ping_pong \<and> url \<in> {Some ''https://x/a'', Some ''https://x/b''})"
  proof
    assume a: "cl = ping_pong \<and> url \<in> {Some ''https://x/a'', Some ''https://x/b''}"
    then consider "url = Some ''https://x/a''" | "url = Some ''https://x/b''" by auto
    then show False
    proof cases
      case 1
      with a body have "\<exists>r s. f ping_pong (Some ''https://x/b'') r s = Some y"
        by (auto simp: ping_pong_def truthy_url_def raise_redirect_exceptions_def
              mk_response_def Let_def)
      then obtain r s where "f ping_pong (Some ''https://x/b'') r s = Some y" by (elim exE)
      from IH [OF this] show False by simp
    next
      case 2
      with a body have "\<exists>r s. f ping_pong (Some ''https://x/a'') r s = Some y"
        by (auto simp: ping_pong_def truthy_url_def raise_redirect_exceptions_def
              mk_response_def Let_def)
      then obtain r s where "f ping_pong (Some ''https://x/a'') r s = Some y" by (elim exE)
      from IH [OF this] show False by simp
    qed
  qed
qed

lemma redirect_cycle_never_returns:
  "redirect_loop ping_pong (Some ''https://x/a'') prev st = None"
  using redirect_cycle_aux [of ping_pong "Some ''https://x/a''" prev st]
  by (cases "redirect_loop ping_pong (Some ''https://x/a'') prev st") auto

lemma request_cycle_never_returns:
  "request ping_pong ''https://x/a'' raw retry st = None"
  unfolding request_def
  by (subst request_loop.simps)
     (simp add: attempt_def handle_redirect_def redirect_cycle_never_returns)

subsection \<open>Entity decoding\<close>

lemma sub_entities_plain:
  "ampersand \<notin> set pre \<Longrightarrow>
   sub_entities n2c (pre @ rest) =
     (case sub_entities n2c rest of Inl e \<Rightarrow> Inl e | Inr t \<Rightarrow> Inr (pre @ t))"
  by (induction pre) (auto simp: Let_def split: sum.splits)

lemma sub_entities_no_ampersand: "ampersand \<notin> set t \<Longrightarrow> sub_entities n2c t = Inr t"
  using sub_entities_plain [of t n2c "[]"] by simp

lemma sub_entities_match:
  assumes "name \<noteq> []" and "semicolon \<notin> set name"
  shows "sub_entities n2c (ampersand # name @ semicolon # post) =
     (case n2c name of
        None \<Rightarrow> Inl KeyError
      | Some cp \<Rightarrow>
          (case chr cp of
             Inl e \<Rightarrow> Inl e
           | Inr u \<Rightarrow>
               (case sub_entities n2c post of
                  Inl e \<Rightarrow> Inl e
                | Inr t \<Rightarrow> Inr (u # t))))"
proof -
  have t: "takeWhile (\<lambda>x. x \<noteq> semicolon) (name @ semicolon # post) = name"
    using assms(2) by (induction name) auto
  have d: "dropWhile (\<lambda>x. x \<noteq> semicolon) (name @ semicolon # post) = semicolon # post"
    using assms(2) by (induction name) auto
  show ?thesis
    using assms(1) by (simp add: t d Let_def split: option.splits sum.splits)
qed


text \<open>
  C8, as stated, fails: a numeric entity is not replaced. The pattern captures
  \<^verbatim>\<open>#39\<close>, which is no key of the table of entity names, and the request raises
  \<open>KeyError\<close> after a successful response instead of returning text.
\<close>

theorem numeric_entity_raises:
  "request test_client ''https://x/y'' False True (test_session [mk_response 200 ''it&#39;s''])
   = Some (Inl KeyError,
       \<lparr>handler_state = ([], [''https://x/y'']), request_url = ''https://x/y'',
        http_cookies = Map.empty\<rparr>)"
proof -
  have s: "sub_entities name2codepoint_excerpt (ustr ''it&#39;s'') = Inl KeyError"
    by (simp add: ustr_def ampersand_def semicolon_def name2codepoint_excerpt_def Let_def)
  show ?thesis
    unfolding request_three_attempts test_session_def
    by (simp add: attempt_scripted s raise_response_exceptions_def raise_for_status_def
          status_code_mk_response retried_def Let_def)
qed

lemma dropWhile_semicolon:
  assumes "dropWhile (\<lambda>x. x \<noteq> semicolon) cs \<noteq> []"
  shows "cs = takeWhile (\<lambda>x. x \<noteq> semicolon) cs
              @ semicolon # tl (dropWhile (\<lambda>x. x \<noteq> semicolon) cs)"
proof -
  have "hd (dropWhile (\<lambda>x. x \<noteq> semicolon) cs) = semicolon"
    using hd_dropWhile [OF assms] by simp
  with assms have "dropWhile (\<lambda>x. x \<noteq> semicolon) cs
      = semicolon # tl (dropWhile (\<lambda>x. x \<noteq> semicolon) cs)"
    by (cases "dropWhile (\<lambda>x. x \<noteq> semicolon) cs") simp_all
  then show ?thesis
    using takeWhile_dropWhile_id [of "\<lambda>x. x \<noteq> semicolon" cs] by simp
qed

lemma pieces_source: "concat (map source_of (pieces t)) = t"
proof (induction t rule: pieces.induct)
  case 1
  show ?case by simp
next
  case (2 c cs)
  show ?case
  proof (cases "c = ampersand \<and> takeWhile (\<lambda>x. x \<noteq> semicolon) cs \<noteq> []
      \<and> dropWhile (\<lambda>x. x \<noteq> semicolon) cs \<noteq> []")
    case True
    then have "concat (map source_of (pieces (tl (dropWhile (\<lambda>x. x \<noteq> semicolon) cs))))
        = tl (dropWhile (\<lambda>x. x \<noteq> semicolon) cs)"
      using "2.IH"(1) by simp
    with True dropWhile_semicolon [of cs] show ?thesis
      by (simp add: Let_def)
  next
    case False
    with "2.IH"(2) show ?thesis
      by (auto simp: Let_def)
  qed
qed

lemma pieces_Match: "Match name \<in> set (pieces t) \<Longrightarrow> name \<noteq> [] \<and> semicolon \<notin> set name"
proof (induction t rule: pieces.induct)
  case 1
  then show ?case by simp
next
  case (2 c cs)
  show ?case
  proof (cases "c = ampersand \<and> takeWhile (\<lambda>x. x \<noteq> semicolon) cs \<noteq> []
      \<and> dropWhile (\<lambda>x. x \<noteq> semicolon) cs \<noteq> []")
    case True
    with "2.prems" consider "name = takeWhile (\<lambda>x. x \<noteq> semicolon) cs"
      | "Match name \<in> set (pieces (tl (dropWhile (\<lambda>x. x \<noteq> semicolon) cs)))"
      by (auto simp: Let_def)
    then show ?thesis
    proof cases
      case 1
      with True show ?thesis
        by (auto dest: set_takeWhileD)
    next
      case 2
      with True "2.IH"(1) show ?thesis by simp
    qed
  next
    case False
    with "2.prems" have "Match name \<in> set (pieces cs)"
      by (auto simp: Let_def)
    with False "2.IH"(2) show ?thesis by auto
  qed
qed

lemma takeWhile_name:
  "semicolon \<notin> set name \<Longrightarrow>
   takeWhile (\<lambda>x. x \<noteq> semicolon) (name @ semicolon # post) = name
   \<and> dropWhile (\<lambda>x. x \<noteq> semicolon) (name @ semicolon # post) = semicolon # post"
  by (induction name) auto

lemma pieces_match:
  "name \<noteq> [] \<Longrightarrow> semicolon \<notin> set name \<Longrightarrow>
   pieces (ampersand # name @ semicolon # post) = Match name # pieces post"
  by (simp add: takeWhile_name Let_def)

lemma pieces_no_match:
  "c \<noteq> ampersand \<or> semicolon \<notin> set cs \<or> (\<exists>cs'. cs = semicolon # cs') \<Longrightarrow>
   pieces (c # cs) = Kept c # pieces cs"
  by (auto simp: Let_def)

lemma sub_entities_pieces:
  "(\<forall>name. Match name \<in> set (pieces t) \<longrightarrow> (\<exists>cp. n2c name = Some cp \<and> cp \<le> 1114111)) \<Longrightarrow>
   sub_entities n2c t = Inr (concat (map (replaced n2c) (pieces t)))"
proof (induction t rule: pieces.induct)
  case 1
  show ?case by simp
next
  case (2 c cs)
  show ?case
  proof (cases "c = ampersand \<and> takeWhile (\<lambda>x. x \<noteq> semicolon) cs \<noteq> []
      \<and> dropWhile (\<lambda>x. x \<noteq> semicolon) cs \<noteq> []")
    case True
    let ?name = "takeWhile (\<lambda>x. x \<noteq> semicolon) cs"
    let ?rest = "tl (dropWhile (\<lambda>x. x \<noteq> semicolon) cs)"
    from True have p: "pieces (c # cs) = Match ?name # pieces ?rest"
      by (simp add: Let_def)
    with "2.prems" obtain cp where cp: "n2c ?name = Some cp" "cp \<le> 1114111"
      by auto
    from p "2.prems"
    have "\<forall>name. Match name \<in> set (pieces ?rest) \<longrightarrow> (\<exists>cp. n2c name = Some cp \<and> cp \<le> 1114111)"
      by simp
    with True "2.IH"(1)
    have "sub_entities n2c ?rest = Inr (concat (map (replaced n2c) (pieces ?rest)))"
      by simp
    with True cp show ?thesis
      by (simp add: Let_def chr_def)
  next
    case False
    then have p: "pieces (c # cs) = Kept c # pieces cs"
      by (auto simp: Let_def)
    with "2.prems"
    have "\<forall>name. Match name \<in> set (pieces cs) \<longrightarrow> (\<exists>cp. n2c name = Some cp \<and> cp \<le> 1114111)"
      by simp
    with False "2.IH"(2)
    have "sub_entities n2c cs = Inr (concat (map (replaced n2c) (pieces cs)))"
      by auto
    with False show ?thesis
      by (auto simp: Let_def)
  qed
qed

lemma decode_examples:
  "sub_entities name2codepoint_excerpt (ustr ''a & b'') = Inr (ustr ''a & b'')"
  "sub_entities name2codepoint_excerpt (ustr ''AT&T'') = Inr (ustr ''AT&T'')"
  "sub_entities name2codepoint_excerpt (ustr ''a &amp; b &lt; c'') = Inr (ustr ''a & b < c'')"
  by (simp_all add: ustr_def ampersand_def semicolon_def name2codepoint_excerpt_def chr_def
        Let_def)

text \<open>
  C8 (amended): after a response that raises no exception, a request with
  \<open>raw_response\<close> returns the response itself, and one without returns what the
  decoding makes of the body. The body is the sequence of its pieces, the matches of
  \<^verbatim>\<open>&([^;]+);\<close> and the characters between them: a character other than an ampersand,
  and an ampersand with no semicolon behind it or with one right behind it, is kept, and
  an ampersand followed by a name and a semicolon is a match. When the table has a code
  point for the name of every match, the decoded text is the body with each match
  replaced by that code point and every other character kept.
\<close>

theorem entity_decoding:
  "(handle_redirect cl st = Some (Inr (Some resp), st') \<and> raise_response_exceptions resp = Inr ()
      \<longrightarrow> attempt cl True st
            = Some (Inr (Raw resp), st'\<lparr>http_cookies := http_cookies st' ++ resp_cookies resp\<rparr>)
        \<and> attempt cl False st
            = (case sub_entities (name2codepoint cl) (resp_text resp) of
                 Inl e \<Rightarrow> Some (Inl e, st'\<lparr>http_cookies := http_cookies st' ++ resp_cookies resp\<rparr>)
               | Inr t \<Rightarrow> Some (Inr (Body t),
                                st'\<lparr>http_cookies := http_cookies st' ++ resp_cookies resp\<rparr>)))
   \<and> concat (map source_of (pieces body)) = body
   \<and> ((\<forall>name. Match name \<in> set (pieces body)
              \<longrightarrow> (\<exists>cp. n2c name = Some cp \<and> cp \<le> 1114111))
      \<longrightarrow> sub_entities n2c body = Inr (concat (map (replaced n2c) (pieces body))))
   \<and> (Match name \<in> set (pieces body) \<longrightarrow> name \<noteq> [] \<and> semicolon \<notin> set name)
   \<and> (name \<noteq> [] \<and> semicolon \<notin> set name
      \<longrightarrow> pieces (ampersand # name @ semicolon # post) = Match name # pieces post)
   \<and> (c \<noteq> ampersand \<or> semicolon \<notin> set cs \<or> (\<exists>cs'. cs = semicolon # cs')
      \<longrightarrow> pieces (c # cs) = Kept c # pieces cs)
   \<and> sub_entities name2codepoint_excerpt (ustr ''a & b'') = Inr (ustr ''a & b'')
   \<and> sub_entities name2codepoint_excerpt (ustr ''AT&T'') = Inr (ustr ''AT&T'')
   \<and> sub_entities name2codepoint_excerpt (ustr ''a &amp; b &lt; c'') = Inr (ustr ''a & b < c'')"
proof (intro conjI impI)
  assume h: "handle_redirect cl st = Some (Inr (Some resp), st')
    \<and> raise_response_exceptions resp = Inr ()"
  then show "attempt cl True st
            = Some (Inr (Raw resp), st'\<lparr>http_cookies := http_cookies st' ++ resp_cookies resp\<rparr>)"
    by (simp add: attempt_def)
  from h show "attempt cl False st
            = (case sub_entities (name2codepoint cl) (resp_text resp) of
                 Inl e \<Rightarrow> Some (Inl e, st'\<lparr>http_cookies := http_cookies st' ++ resp_cookies resp\<rparr>)
               | Inr t \<Rightarrow> Some (Inr (Body t),
                                st'\<lparr>http_cookies := http_cookies st' ++ resp_cookies resp\<rparr>))"
    by (simp add: attempt_def Let_def)
next
  show "concat (map source_of (pieces body)) = body" by (rule pieces_source)
next
  assume "\<forall>name. Match name \<in> set (pieces body)
              \<longrightarrow> (\<exists>cp. n2c name = Some cp \<and> cp \<le> 1114111)"
  then show "sub_entities n2c body = Inr (concat (map (replaced n2c) (pieces body)))"
    by (rule sub_entities_pieces)
next
  assume "Match name \<in> set (pieces body)"
  then show "name \<noteq> []" "semicolon \<notin> set name"
    using pieces_Match by blast+
next
  assume "name \<noteq> [] \<and> semicolon \<notin> set name"
  then show "pieces (ampersand # name @ semicolon # post) = Match name # pieces post"
    using pieces_match by blast
next
  assume "c \<noteq> ampersand \<or> semicolon \<notin> set cs \<or> (\<exists>cs'. cs = semicolon # cs')"
  then show "pieces (c # cs) = Kept c # pieces cs" by (rule pieces_no_match)
qed (rule decode_examples)+

theorem entity_decoding_witness:
  "attempt test_client True
     \<lparr>handler_state = ([mk_response 200 ''a &amp; b''], []), request_url = ''https://x/y'',
      http_cookies = Map.empty\<rparr>
     = Some (Inr (Raw (mk_response 200 ''a &amp; b'')),
         \<lparr>handler_state = ([], [''https://x/y'']), request_url = ''https://x/y'',
          http_cookies = Map.empty\<rparr>)
   \<and> attempt test_client False
     \<lparr>handler_state = ([mk_response 200 ''a &amp; b''], []), request_url = ''https://x/y'',
      http_cookies = Map.empty\<rparr>
     = Some (Inr (Body (ustr ''a & b'')),
         \<lparr>handler_state = ([], [''https://x/y'']), request_url = ''https://x/y'',
          http_cookies = Map.empty\<rparr>)
   \<and> pieces (ustr ''a &amp; b'')
       = [Kept 97, Kept 32, Match (ustr ''amp''), Kept 32, Kept 98]
   \<and> sub_entities name2codepoint_excerpt (ustr ''a &amp; b'') = Inr (ustr ''a & b'')
   \<and> pieces (ustr ''&amp;'') = [Match (ustr ''amp'')]
   \<and> pieces (ustr ''& b'') = Kept 38 # pieces (ustr '' b'')"
proof -
  let ?st = "\<lparr>handler_state = ([mk_response 200 ''a &amp; b''], []),
      request_url = ''https://x/y'', http_cookies = Map.empty\<rparr>
      :: (response list \<times> string list) session"
  let ?st1 = "\<lparr>handler_state = ([], [''https://x/y'']), request_url = ''https://x/y'',
      http_cookies = Map.empty\<rparr> :: (response list \<times> string list) session"
  have hr: "handle_redirect test_client ?st = Some (Inr (Some (mk_response 200 ''a &amp; b'')), ?st1)"
    unfolding handle_redirect_def
    by (subst redirect_loop_final [where resp = "mk_response 200 ''a &amp; b''"
          and h' = "([], [''https://x/y''])"])
       (simp_all add: test_client_def scripted_def mk_response_def)
  have ok: "raise_response_exceptions (mk_response 200 ''a &amp; b'') = Inr ()"
    by (simp add: raise_response_exceptions_def raise_for_status_def mk_response_def)
  have n2c: "name2codepoint test_client = name2codepoint_excerpt"
    by (simp add: test_client_def)
  have t: "resp_text (mk_response 200 ''a &amp; b'') = ustr ''a &amp; b''"
    "resp_cookies (mk_response 200 ''a &amp; b'') = Map.empty"
    by (simp_all add: mk_response_def)
  have ps: "pieces (ustr ''a &amp; b'') = [Kept 97, Kept 32, Match (ustr ''amp''), Kept 32, Kept 98]"
    by (simp add: ustr_def ampersand_def semicolon_def Let_def)
  have amp: "name2codepoint_excerpt (ustr ''amp'') = Some 38"
    by (simp add: name2codepoint_excerpt_def ustr_def)
  have e: "ustr ''&amp;'' = ampersand # ustr ''amp'' @ semicolon # []"
    "ustr ''& b'' = ampersand # ustr '' b''" "ustr ''a & b'' = [97, 32, 38, 32, 98]"
    "ustr ''amp'' \<noteq> []" "semicolon \<notin> set (ustr ''amp'')" "semicolon \<notin> set (ustr '' b'')"
    "ampersand = 38"
    by (simp_all add: ustr_def ampersand_def semicolon_def)
  note inst = entity_decoding [where cl = test_client and st = ?st
      and resp = "mk_response 200 ''a &amp; b''" and st' = ?st1
      and n2c = name2codepoint_excerpt and body = "ustr ''a &amp; b''"
      and name = "ustr ''amp''" and post = "[]" and c = ampersand and cs = "ustr '' b''"]
  have d: "sub_entities name2codepoint_excerpt (ustr ''a &amp; b'') = Inr (ustr ''a & b'')"
    using inst by (simp add: ps amp e(3))
  have m: "pieces (ustr ''&amp;'') = [Match (ustr ''amp'')]"
    using inst e(4,5) by (simp add: e(1))
  have k: "pieces (ustr ''& b'') = Kept 38 # pieces (ustr '' b'')"
    using inst e(6) by (simp add: e(2) e(7) [symmetric])
  have at: "attempt test_client True ?st = Some (Inr (Raw (mk_response 200 ''a &amp; b'')), ?st1)
    \<and> attempt test_client False ?st = Some (Inr (Body (ustr ''a & b'')), ?st1)"
    using inst hr ok by (simp add: t n2c d)
  from at ps d m k show ?thesis by simp
qed

subsection \<open>The API exceptions\<close>

lemma ERROR_MAPPING_items:
  "ERROR_MAPPING =
     [(''BAD_USER_KEY'', BadUserKey_class), (''NO_AI_FOUND'', NoAIFound_class),
      (''RATE_LIMIT'', RateLimitExceeded_class)]"
  by (simp add: ERROR_MAPPING_def build_error_mapping_def module_classes_def)

text \<open>
  C9: the error mapping has exactly one entry for each class of the module that declares
  an \<open>ERROR_TYPE\<close>, from that string to the class, \<^verbatim>\<open>RATE_LIMIT\<close> to
  \<open>RateLimitExceeded\<close>; and a \<open>RateLimitExceeded\<close> made from a response mapping that has a
  value under \<^verbatim>\<open>ratelimit\<close> carries that value as \<open>sleep_time\<close>.
\<close>

theorem rate_limit_sleep_time:
  "(\<forall>c t. c \<in> set module_classes \<and> ERROR_TYPE c = Some t \<longrightarrow> map_of ERROR_MAPPING t = Some c)
   \<and> (\<forall>t c. map_of ERROR_MAPPING t = Some c \<longrightarrow> ERROR_TYPE c = Some t)
   \<and> map_of ERROR_MAPPING ''RATE_LIMIT'' = Some RateLimitExceeded_class
   \<and> (\<forall>payload v. map_of payload ''ratelimit'' = Some v \<longrightarrow>
        (\<exists>exc. RateLimitExceeded_init etype msg fld (PDict payload) = Inr exc
               \<and> sleep_time exc = Some v \<and> exc_class exc = RateLimitExceeded_class
               \<and> response exc = PDict payload))"
proof (intro conjI allI impI)
  fix c t
  assume "c \<in> set module_classes \<and> ERROR_TYPE c = Some t"
  then show "map_of ERROR_MAPPING t = Some c"
    by (cases c) (auto simp: ERROR_MAPPING_items)
next
  fix t c
  assume "map_of ERROR_MAPPING t = Some c"
  then show "ERROR_TYPE c = Some t"
    by (auto simp: ERROR_MAPPING_items split: if_splits)
next
  show "map_of ERROR_MAPPING ''RATE_LIMIT'' = Some RateLimitExceeded_class"
    by (simp add: ERROR_MAPPING_items)
next
  fix payload :: "(string \<times> pyval) list" and v
  assume "map_of payload ''ratelimit'' = Some v"
  then show "\<exists>exc. RateLimitExceeded_init etype msg fld (PDict payload) = Inr exc
               \<and> sleep_time exc = Some v \<and> exc_class exc = RateLimitExceeded_class
               \<and> response exc = PDict payload"
    by (simp add: RateLimitExceeded_init_def APIException_init_def)
qed

theorem rate_limit_sleep_time_witness:
  "map_of ERROR_MAPPING ''RATE_LIMIT'' = Some RateLimitExceeded_class
   \<and> (\<exists>exc. RateLimitExceeded_init ''RATE_LIMIT'' ''slow down'' ''ratelimit''
              (PDict [(''ratelimit'', PInt 30), (''reason'', PStr ''too fast'')]) = Inr exc
            \<and> sleep_time exc = Some (PInt 30))"
proof -
  have m: "map_of [(''ratelimit'', PInt 30), (''reason'', PStr ''too fast'')] ''ratelimit''
             = Some (PInt 30)"
    by simp
  have c: "RateLimitExceeded_class \<in> set module_classes
      \<and> ERROR_TYPE RateLimitExceeded_class = Some ''RATE_LIMIT''"
    by (simp add: module_classes_def)
  from rate_limit_sleep_time [where etype = "''RATE_LIMIT''" and msg = "''slow down''"
      and fld = "''ratelimit''"] m c
  show ?thesis by blast
qed

subsection \<open>The objects\<close>

lemma fails_raise: "fails (raise err s) s"
  by (simp add: fails_def raise_def)

lemma fails_Inl: "fails (Inl err, s) s"
  by (simp add: fails_def)

lemma fails_on_ok: "fails r s \<Longrightarrow> fails (on_ok r f) s"
  by (cases r) (auto simp: fails_def on_ok_def split: sum.splits)

lemma on_ok_ret: "on_ok (ret v s) f = f v s"
  by (simp add: on_ok_def ret_def)

lemma on_ok_Inr: "on_ok (Inr v, s) f = f v s"
  by (simp add: on_ok_def)

lemma failsE: "fails r s \<Longrightarrow> \<exists>err. r = (Inl err, s)"
  by (cases r) (auto simp: fails_def isl_def)

lemma lookup_internal:
  "lookup obj ''session'' = map_of (snd obj) ''session''"
  "lookup obj ''_has_fetched'' = map_of (snd obj) ''_has_fetched''"
  by (simp_all add: lookup_def class_attr_def HutomaObject_members_def object_members_def
        Editable_members_def split: option.splits)

lemma obj_getattr_found:
  "lookup (fst s) name = Some v \<Longrightarrow> name \<noteq> ''fullname'' \<Longrightarrow>
   k_obj_getattr (depth e (Suc d)) name s = (Inr v, s)"
  by (simp add: obj_getattr_body_def ret_def)

lemma depth_0_fails:
  "fails (k_obj_getattr (depth e 0) name s) s"
  "fails (k_dunder_setattr (depth e 0) name v s) s"
  "fails (k_py_getattr (depth e 0) x name w) w"
  "fails (k_init (depth e 0) c hs jd f iu un uq w) w"
  "fails (k_AI_init (depth e 0) hs jd f w) w"
  by (simp_all add: fails_raise)

lemma dunder_getattr_body_fails:
  assumes "fails (k_populate k PNone True s) s"
    and "fails (k_obj_getattr k ''_has_fetched'' s) s
         \<or> (\<exists>v. k_obj_getattr k ''_has_fetched'' s = (Inr v, s))"
  shows "fails (dunder_getattr_body k name s) s"
proof (cases "name = ''__setstate__''")
  case True
  then show ?thesis by (simp add: dunder_getattr_body_def fails_raise)
next
  case False
  from assms(2) show ?thesis
  proof
    assume "fails (k_obj_getattr k ''_has_fetched'' s) s"
    then show ?thesis
      using False by (simp add: dunder_getattr_body_def fails_on_ok)
  next
    assume "\<exists>v. k_obj_getattr k ''_has_fetched'' s = (Inr v, s)"
    then obtain v where v: "k_obj_getattr k ''_has_fetched'' s = (Inr v, s)" ..
    show ?thesis
    proof (cases "truthy v")
      case True
      then show ?thesis
        using False by (simp add: dunder_getattr_body_def v on_ok_Inr fails_raise)
    next
      case f: False
      then show ?thesis
        using False assms(1) by (simp add: dunder_getattr_body_def v on_ok_Inr fails_on_ok)
    qed
  qed
qed

lemma populate_body_fails:
  assumes "fails (k_get_json_dict k s) s" and "fails (k_obj_getattr k ''session'' s) s"
  shows "fails (populate_body k json_dict fetch s) s"
proof -
  let ?first = "if json_dict = PNone
            then (if fetch then k_get_json_dict k s else ret (PDict []) s)
            else ret json_dict s"
  have "fails ?first s \<or> (\<exists>v. ?first = ret v s)"
    using assms(1) by auto
  then show ?thesis
  proof
    assume "fails ?first s"
    then show ?thesis
      unfolding populate_body_def by (rule fails_on_ok)
  next
    assume "\<exists>v. ?first = ret v s"
    then obtain v where "?first = ret v s" ..
    then show ?thesis
      unfolding populate_body_def
      by (simp only: on_ok_ret fails_on_ok [OF assms(2)])
  qed
qed

lemma obj_getattr_body_missing:
  assumes "fails (k_dunder_getattr k name s) s"
    and "lookup (fst s) name = None" and "name \<noteq> ''fullname''"
  shows "fails (obj_getattr_body k name s) s"
  using assms by (simp add: obj_getattr_body_def)

lemma obj_getattr_body_fullname:
  assumes "k_fullname k s = (Inl err, s)" and "fails (k_dunder_getattr k ''fullname'' s) s"
  shows "fails (obj_getattr_body k ''fullname'' s) s"
  using assms
  by (cases err) (simp_all add: obj_getattr_body_def fails_Inl)

lemma no_session_fails:
  "lookup (fst s) ''session'' = None \<Longrightarrow>
     fails (k_dunder_getattr (depth e d) name s) s
   \<and> (lookup (fst s) name = None \<or> name = ''fullname''
        \<longrightarrow> fails (k_obj_getattr (depth e d) name s) s)
   \<and> fails (k_fullname (depth e d) s) s
   \<and> fails (k_get_json_dict (depth e d) s) s
   \<and> fails (k_populate (depth e d) json_dict fetch s) s"
proof (induction d arbitrary: name json_dict fetch)
  case 0
  then show ?case by (simp add: fails_raise)
next
  case (Suc d)
  let ?k = "depth e d"
  note ns = Suc.prems
  have IH: "fails (k_dunder_getattr ?k n s) s
   \<and> (lookup (fst s) n = None \<or> n = ''fullname''
        \<longrightarrow> fails (k_obj_getattr ?k n s) s)
   \<and> fails (k_fullname ?k s) s
   \<and> fails (k_get_json_dict ?k s) s
   \<and> fails (k_populate ?k jd f s) s" for n jd f
    by (rule Suc.IH [OF ns])
  have dg: "fails (k_dunder_getattr ?k n s) s" for n
    using IH [of n PNone True] by (rule conjunct1)
  have og0: "lookup (fst s) n = None \<or> n = ''fullname''
        \<longrightarrow> fails (k_obj_getattr ?k n s) s" for n
    using IH [of n PNone True] by (elim conjE)
  have fl: "fails (k_fullname ?k s) s"
    using IH [of "[]" PNone True] by (elim conjE)
  have gjd: "fails (k_get_json_dict ?k s) s"
    using IH [of "[]" PNone True] by (elim conjE)
  have pop: "fails (k_populate ?k jd f s) s" for jd f
    using IH [of "[]" jd f] by (elim conjE)
  have sess: "fails (k_obj_getattr ?k ''session'' s) s"
    using og0 [of "''session''"] ns by (elim impE) (rule disjI1)
  have hf: "fails (k_obj_getattr ?k ''_has_fetched'' s) s
         \<or> (\<exists>v. k_obj_getattr ?k ''_has_fetched'' s = (Inr v, s))"
  proof (cases "lookup (fst s) ''_has_fetched''")
    case None
    with og0 [of "''_has_fetched''"] show ?thesis by (intro disjI1) (elim impE, rule disjI1)
  next
    case (Some v)
    have ne: "''_has_fetched'' \<noteq> ''fullname''" by simp
    show ?thesis
    proof (cases d)
      case 0
      show ?thesis unfolding 0 by (rule disjI1) (rule depth_0_fails)
    next
      case (Suc d')
      show ?thesis
        unfolding Suc by (rule disjI2, rule exI, rule obj_getattr_found [OF Some ne])
    qed
  qed
  have g: "fails (dunder_getattr_body ?k name s) s"
    by (rule dunder_getattr_body_fails [OF pop hf])
  have fn: "fails (fullname_body ?k s) s"
    unfolding fullname_body_def by (rule fails_on_ok [OF sess])
  have gj: "fails (get_json_dict_body e ?k s) s"
    unfolding get_json_dict_body_def by (rule fails_on_ok [OF sess])
  have pp: "fails (populate_body ?k json_dict fetch s) s"
    by (rule populate_body_fails [OF gjd sess])
  have og: "lookup (fst s) name = None \<or> name = ''fullname''
      \<longrightarrow> fails (obj_getattr_body ?k name s) s"
  proof
    assume that: "lookup (fst s) name = None \<or> name = ''fullname''"
    show "fails (obj_getattr_body ?k name s) s"
    proof (cases "name = ''fullname''")
      case True
      from failsE [OF fl] obtain err where "k_fullname ?k s = (Inl err, s)" ..
      from obj_getattr_body_fullname [OF this dg] show ?thesis
        unfolding True .
    next
      case False
      with that have "lookup (fst s) name = None" by blast
      from obj_getattr_body_missing [OF dg this False] show ?thesis .
    qed
  qed
  have sel: "k_dunder_getattr (depth e (Suc d)) = dunder_getattr_body ?k"
    "k_obj_getattr (depth e (Suc d)) = obj_getattr_body ?k"
    "k_fullname (depth e (Suc d)) = fullname_body ?k"
    "k_get_json_dict (depth e (Suc d)) = get_json_dict_body e ?k"
    "k_populate (depth e (Suc d)) = populate_body ?k"
    by simp_all
  show ?case
    unfolding sel by (intro conjI g og fn gj pp)
qed


lemma setattr_plain:
  "\<not> str_contains HUTOMA_KEYS name \<Longrightarrow>
   name \<notin> {''fullname'', ''__class__'', ''__dict__'', ''__weakref__''} \<Longrightarrow>
   dunder_setattr_body k name v s =
     (Inr (), (fst (fst s), dict_set name v (snd (fst s))), snd s)"
  by (simp add: dunder_setattr_body_def object_setattr_def on_ok_def ret_def)

lemma fails_on_self:
  assumes "fails (m (obj, w)) (obj', w)"
  shows "fails (on_self obj m w) w"
proof -
  from failsE [OF assms] obtain err where "m (obj, w) = (Inl err, obj', w)" ..
  then show ?thesis by (simp add: on_self_def fails_Inl)
qed

lemma init_chain_fails:
  "fails (on_ok (k_dunder_setattr (depth e d) ''_info_url'' url ((c, []), w)) (\<lambda>u s2.
          on_ok (k_dunder_setattr (depth e d) ''hutoma_session'' hs s2) (\<lambda>u s3.
          on_ok (k_dunder_setattr (depth e d) ''_underscore_names'' un s3) (\<lambda>u s4.
          on_ok (k_dunder_setattr (depth e d) ''_uniq'' uq s4) (\<lambda>u s5.
          on_ok (k_populate (depth e d) jd f s5) (\<lambda>b s6.
          k_dunder_setattr (depth e d) ''_has_fetched'' (PBool b) s6))))))
     (if d = 0 then (c, [])
      else (c, [(''_info_url'', url), (''hutoma_session'', hs), (''_underscore_names'', un),
                (''_uniq'', uq)]), w)"
proof (cases d)
  case 0
  show ?thesis
    unfolding 0 by (simp add: fails_on_ok fails_raise)
next
  case (Suc d')
  let ?a = "[(''_info_url'', url), (''hutoma_session'', hs), (''_underscore_names'', un),
             (''_uniq'', uq)]"
  have p: "fails (k_populate (depth e d) jd f ((c, ?a), w)) ((c, ?a), w)"
    using no_session_fails [of "((c, ?a), w)" e d "[]" jd f] by (simp add: lookup_internal)
  show ?thesis
    unfolding Suc
    using p [unfolded Suc]
    by (simp add: setattr_plain HUTOMA_KEYS_def on_ok_Inr fails_on_ok)
qed

lemma init_fails: "fails (k_init (depth e d) c PSession jd f info_url un uq w) w"
proof (cases d)
  case 0
  show ?thesis unfolding 0 by (rule depth_0_fails)
next
  case (Suc d')
  have sel: "k_init (depth e (Suc d')) = init_body e (depth e d')" by simp
  show ?thesis
  proof (cases "truthy info_url")
    case True
    have "fails (on_self (c, [])
              (\<lambda>s1.
                 on_ok (k_dunder_setattr (depth e d') ''_info_url'' info_url s1) (\<lambda>u s2.
                 on_ok (k_dunder_setattr (depth e d') ''hutoma_session'' PSession s2) (\<lambda>u s3.
                 on_ok (k_dunder_setattr (depth e d') ''_underscore_names'' un s3) (\<lambda>u s4.
                 on_ok (k_dunder_setattr (depth e d') ''_uniq'' uq s4) (\<lambda>u s5.
                 on_ok (k_populate (depth e d') jd f s5) (\<lambda>b s6.
                 k_dunder_setattr (depth e d') ''_has_fetched'' (PBool b) s6))))))
              w) w"
      by (rule fails_on_self) (rule init_chain_fails)
    then show ?thesis
      unfolding Suc sel init_body_def using True
      by (simp add: on_ok_ret fails_on_ok)
  next
    case False
    have "fails (on_ok (k_py_getattr (depth e d') PSession ''config'' w) (\<lambda>config.
                 lift_res (subscript e config ''info''))) w"
    proof (cases d')
      case 0
      show ?thesis unfolding 0 by (simp add: fails_on_ok fails_raise)
    next
      case (Suc d'')
      show ?thesis
        unfolding Suc
        by (simp add: py_getattr_body_def on_ok_ret lift_res_def subscript_def
            Config_getitem_def API_PATHS_def fails_Inl)
    qed
    then show ?thesis
      unfolding Suc sel init_body_def using False
      by (simp add: fails_on_ok)
  qed
qed

lemma AI_init_fails: "fails (k_AI_init (depth e d) PSession jd f w) w"
proof (cases d)
  case 0
  show ?thesis unfolding 0 by (rule depth_0_fails)
next
  case (Suc d')
  show ?thesis
    unfolding Suc using init_fails [of e d' AI jd f PNone PNone PNone w]
    by (simp add: AI_init_body_def)
qed

lemma from_api_response_fails: "fails (from_api_response e d c PSession jd w) w"
  by (simp add: from_api_response_def new_AI_def new_object_def AI_init_fails init_fails)

lemma init_no_url_KeyError:
  "\<not> truthy info_url \<Longrightarrow>
   k_init (depth e (Suc (Suc d))) c PSession jd f info_url un uq w = (Inl KeyError, w)"
  by (simp add: init_body_def py_getattr_body_def lift_res_def subscript_def
        Config_getitem_def API_PATHS_def on_ok_def ret_def)

lemma from_api_response_KeyError:
  "from_api_response e (Suc (Suc (Suc d))) c PSession jd w = (Inl KeyError, w)"
  using init_no_url_KeyError [of PNone e d] init_no_url_KeyError [of PNone e "Suc d"]
  by (simp add: from_api_response_def new_AI_def new_object_def AI_init_body_def)

lemma str_contains_HUTOMA_KEYS:
  "str_contains HUTOMA_KEYS name \<longleftrightarrow>
     name \<in> {[], ''A'', ''I'', ''D'', ''AI'', ''II'', ''ID'', ''AII'', ''IID'', ''AIID''}"
proof -
  have t: "take (length n) (x # xs) = n \<longleftrightarrow> n = [] \<or> (\<exists>n'. n = x # n' \<and> take (length n') xs = n')"
    for n :: string and x xs
    by (cases n) auto
  show ?thesis
    unfolding HUTOMA_KEYS_def by (auto simp: t)
qed


lemma on_ok_Inl: "on_ok (Inl err, s) f = (Inl err, s)"
  by (simp add: on_ok_def)

lemma recursion_error:
  "lookup (fst s) ''session'' = None \<Longrightarrow> lookup (fst s) ''_has_fetched'' = None \<Longrightarrow>
     (name \<noteq> ''__setstate__'' \<longrightarrow> k_dunder_getattr (depth e d) name s = (Inl RecursionError, s))
   \<and> (name \<noteq> ''__setstate__'' \<and> (lookup (fst s) name = None \<or> name = ''fullname'')
        \<longrightarrow> k_obj_getattr (depth e d) name s = (Inl RecursionError, s))
   \<and> k_fullname (depth e d) s = (Inl RecursionError, s)
   \<and> k_get_json_dict (depth e d) s = (Inl RecursionError, s)
   \<and> k_populate (depth e d) json_dict fetch s = (Inl RecursionError, s)"
proof (induction d arbitrary: name json_dict fetch)
  case 0
  then show ?case by (simp add: raise_def)
next
  case (Suc d)
  let ?k = "depth e d"
  have IH: "(n \<noteq> ''__setstate__'' \<longrightarrow> k_dunder_getattr ?k n s = (Inl RecursionError, s))
   \<and> (n \<noteq> ''__setstate__'' \<and> (lookup (fst s) n = None \<or> n = ''fullname'')
        \<longrightarrow> k_obj_getattr ?k n s = (Inl RecursionError, s))
   \<and> k_fullname ?k s = (Inl RecursionError, s)
   \<and> k_get_json_dict ?k s = (Inl RecursionError, s)
   \<and> k_populate ?k jd f s = (Inl RecursionError, s)" for n jd f
    by (rule Suc.IH [OF Suc.prems])
  have dg: "n \<noteq> ''__setstate__'' \<Longrightarrow> k_dunder_getattr ?k n s = (Inl RecursionError, s)" for n
    using IH [of n PNone True] by simp
  have fl: "k_fullname ?k s = (Inl RecursionError, s)"
    using IH [of "[]" PNone True] by (elim conjE)
  have gjd: "k_get_json_dict ?k s = (Inl RecursionError, s)"
    using IH [of "[]" PNone True] by (elim conjE)
  have sess: "k_obj_getattr ?k ''session'' s = (Inl RecursionError, s)"
    using IH [of "''session''" PNone True] Suc.prems(1) by simp
  have hf: "k_obj_getattr ?k ''_has_fetched'' s = (Inl RecursionError, s)"
    using IH [of "''_has_fetched''" PNone True] Suc.prems(2) by simp
  have g: "name \<noteq> ''__setstate__'' \<longrightarrow> dunder_getattr_body ?k name s = (Inl RecursionError, s)"
    by (simp add: dunder_getattr_body_def hf on_ok_Inl)
  have fn: "fullname_body ?k s = (Inl RecursionError, s)"
    by (simp add: fullname_body_def sess on_ok_Inl)
  have gj: "get_json_dict_body e ?k s = (Inl RecursionError, s)"
    by (simp add: get_json_dict_body_def sess on_ok_Inl)
  have pp: "populate_body ?k json_dict fetch s = (Inl RecursionError, s)"
    by (simp add: populate_body_def sess gjd on_ok_Inl on_ok_ret)
  have og: "name \<noteq> ''__setstate__'' \<and> (lookup (fst s) name = None \<or> name = ''fullname'')
      \<longrightarrow> obj_getattr_body ?k name s = (Inl RecursionError, s)"
  proof (intro impI, elim conjE)
    assume ne: "name \<noteq> ''__setstate__''"
      and that: "lookup (fst s) name = None \<or> name = ''fullname''"
    show "obj_getattr_body ?k name s = (Inl RecursionError, s)"
    proof (cases "name = ''fullname''")
      case True
      show ?thesis unfolding True by (simp add: obj_getattr_body_def fl)
    next
      case False
      with that have "lookup (fst s) name = None" by simp
      with False dg [OF ne] show ?thesis by (simp add: obj_getattr_body_def)
    qed
  qed
  have sel: "k_dunder_getattr (depth e (Suc d)) = dunder_getattr_body ?k"
    "k_obj_getattr (depth e (Suc d)) = obj_getattr_body ?k"
    "k_fullname (depth e (Suc d)) = fullname_body ?k"
    "k_get_json_dict (depth e (Suc d)) = get_json_dict_body e ?k"
    "k_populate (depth e (Suc d)) = populate_body ?k"
    by simp_all
  show ?case
    unfolding sel by (intro conjI g og fn gj pp)
qed

lemma init_with_url_RecursionError:
  assumes "truthy info_url"
  shows "k_init (depth e d) c hs jd f info_url un uq w = (Inl RecursionError, w)"
proof (cases d)
  case 0
  show ?thesis unfolding 0 by (simp add: raise_def)
next
  case (Suc d')
  let ?a = "[(''_info_url'', info_url), (''hutoma_session'', hs), (''_underscore_names'', un),
             (''_uniq'', uq)]"
  show ?thesis
  proof (cases d')
    case 0
    show ?thesis
      unfolding Suc 0 using assms
      by (simp add: init_body_def on_ok_ret on_self_def raise_def on_ok_Inl)
  next
    case d'': (Suc d'')
    have p: "k_populate (depth e d') jd f ((c, ?a), w) = (Inl RecursionError, (c, ?a), w)"
      using recursion_error [of "((c, ?a), w)" "[]" e d' jd f] by (simp add: lookup_internal)
    show ?thesis
      unfolding Suc using assms p [unfolded d'']
      by (simp add: d'' init_body_def on_ok_ret setattr_plain HUTOMA_KEYS_def on_ok_Inr
            on_ok_Inl on_self_def)
  qed
qed


lemma getattr_unset_fails:
  assumes "map_of (snd obj) ''session'' = None"
    and "lookup obj name = None \<or> name = ''fullname''"
  shows "\<exists>err. getattr e d name (obj, w) = (Inl err, obj, w)"
proof -
  have "fails (k_obj_getattr (depth e d) name (obj, w)) (obj, w)"
    using no_session_fails [of "(obj, w)" e d name PNone True] assms
    by (simp add: lookup_internal)
  then show ?thesis
    unfolding getattr_def by (rule failsE)
qed

lemma dunder_eq_fails:
  assumes "map_of (snd self) ''session'' = None"
  shows "\<exists>err. dunder_eq e d (PObj c a) (self, w) = (Inl err, self, w)"
proof -
  from getattr_unset_fails [of self "''fullname''" e d w] assms
  obtain err where "getattr e d ''fullname'' (self, w) = (Inl err, self, w)"
    by auto
  then show ?thesis
    by (simp add: dunder_eq_def fullname_def on_ok_Inl)
qed

lemma setattr_reference_fails:
  assumes "str_contains HUTOMA_KEYS name" and "truthy v" and "\<not> is_bool v"
    and "v \<noteq> PStr ''[deleted]''" and "map_of (snd obj) ''session'' = None"
  shows "\<exists>err. setattr e d name v (obj, w) = (Inl err, obj, w)"
proof (cases d)
  case 0
  show ?thesis unfolding 0 setattr_def by (simp add: raise_def)
next
  case (Suc d')
  have "fails (k_obj_getattr (depth e d') ''session'' (obj, w)) (obj, w)"
    using no_session_fails [of "(obj, w)" e d' "''session''" PNone True] assms(5)
    by (simp add: lookup_internal)
  from failsE [OF this] obtain err
    where "k_obj_getattr (depth e d') ''session'' (obj, w) = (Inl err, obj, w)" ..
  then show ?thesis
    unfolding Suc setattr_def using assms(1-4)
    by (simp add: dunder_setattr_body_def on_ok_Inl)
qed

lemma key_is_storable:
  "str_contains HUTOMA_KEYS name \<Longrightarrow>
   name \<notin> {''fullname'', ''__class__'', ''__dict__'', ''__weakref__''}"
  by (auto simp: str_contains_HUTOMA_KEYS)

lemma setattr_stores:
  assumes "\<not> (truthy v \<and> str_contains HUTOMA_KEYS name) \<or> is_bool v"
    and "name \<notin> {''fullname'', ''__class__'', ''__dict__'', ''__weakref__''}"
  shows "setattr e (Suc d) name v (obj, w) = (Inr (), (fst obj, dict_set name v (snd obj)), w)"
  using assms
  by (auto simp: setattr_def dunder_setattr_body_def object_setattr_def on_ok_def ret_def)

lemma setattr_deleted:
  assumes "str_contains HUTOMA_KEYS name"
  shows "setattr e (Suc d) name (PStr ''[deleted]'') (obj, w)
           = (Inr (), (fst obj, dict_set name PNone (snd obj)), w)"
  using assms key_is_storable [OF assms]
  by (simp add: setattr_def dunder_setattr_body_def object_setattr_def on_ok_def ret_def)

text \<open>
  C3, as the code stands: constructing an object with
  \<open>fetch = False\<close> and no payload raises, without a fetch: \<^verbatim>\<open>_populate\<close> reads
  \<^verbatim>\<open>self.session\<close>, which \<^verbatim>\<open>__init__\<close> never sets (it sets \<^verbatim>\<open>self.hutoma_session\<close>), so
  \<^verbatim>\<open>__getattr__\<close> runs, reads \<^verbatim>\<open>self._has_fetched\<close>, which is not set yet either, and
  recurses to \<^verbatim>\<open>RecursionError\<close>; without an \<^verbatim>\<open>info_url\<close> (always so for \<^verbatim>\<open>AI\<close>) the
  lookup \<^verbatim>\<open>config['info']\<close> raises \<^verbatim>\<open>KeyError\<close> before that. And on any object without an
  attribute \<^verbatim>\<open>session\<close>, reading an unset attribute (one that neither the instance
  nor its class has) raises with no fetch and leaves the object as it was.
\<close>

theorem lazy_population_raises:
  "(\<exists>err. new_object e d c PSession PNone False info_url un uq w = (Inl err, w))
   \<and> (truthy info_url \<longrightarrow>
        new_object e d c PSession PNone False info_url un uq w = (Inl RecursionError, w))
   \<and> (\<not> truthy info_url \<longrightarrow>
        new_object e (Suc (Suc d)) c PSession PNone False info_url un uq w = (Inl KeyError, w))
   \<and> new_AI e (Suc (Suc (Suc d))) PSession PNone False w = (Inl KeyError, w)
   \<and> (map_of (snd obj) ''session'' = None
        \<and> (lookup obj name = None \<or> name = ''fullname'')
      \<longrightarrow> (\<exists>err. getattr e d name (obj, w) = (Inl err, obj, w)))"
proof (intro conjI impI)
  show "\<exists>err. new_object e d c PSession PNone False info_url un uq w = (Inl err, w)"
    unfolding new_object_def by (rule failsE) (rule init_fails)
  show "new_object e d c PSession PNone False info_url un uq w = (Inl RecursionError, w)"
    if "truthy info_url"
    unfolding new_object_def using that by (rule init_with_url_RecursionError)
  show "new_object e (Suc (Suc d)) c PSession PNone False info_url un uq w = (Inl KeyError, w)"
    if "\<not> truthy info_url"
    unfolding new_object_def using that by (rule init_no_url_KeyError)
  show "new_AI e (Suc (Suc (Suc d))) PSession PNone False w = (Inl KeyError, w)"
    using init_no_url_KeyError [of PNone e d AI PNone False PNone PNone w]
    by (simp add: new_AI_def AI_init_body_def)
  show "\<exists>err. getattr e d name (obj, w) = (Inl err, obj, w)"
    if "map_of (snd obj) ''session'' = None
        \<and> (lookup obj name = None \<or> name = ''fullname'')"
    using that getattr_unset_fails [of obj name e d w] by simp
qed

theorem lazy_population_raises_witness:
  "new_object test_env 9 Chat PSession PNone False (PStr ''https://x/info'') PNone PNone 0
     = (Inl RecursionError, 0)
   \<and> new_object test_env 9 Chat PSession PNone False PNone PNone PNone 0 = (Inl KeyError, 0)
   \<and> (\<exists>err. getattr test_env 9 ''id''
          ((Chat, [(''_info_url'', PStr ''https://x/info''), (''hutoma_session'', PSession),
                   (''_underscore_names'', PNone), (''_uniq'', PNone),
                   (''_has_fetched'', PBool False)]), 0)
        = (Inl err,
           (Chat, [(''_info_url'', PStr ''https://x/info''), (''hutoma_session'', PSession),
                   (''_underscore_names'', PNone), (''_uniq'', PNone),
                   (''_has_fetched'', PBool False)]), 0))"
proof -
  have n: "(9::nat) = Suc (Suc 7)" by simp
  note a = lazy_population_raises [where e = test_env and d = 9 and c = Chat
      and info_url = "PStr ''https://x/info''" and un = PNone and uq = PNone and w = 0
      and name = "''id''"
      and obj = "(Chat, [(''_info_url'', PStr ''https://x/info''), (''hutoma_session'', PSession),
                   (''_underscore_names'', PNone), (''_uniq'', PNone),
                   (''_has_fetched'', PBool False)])"]
  note b = lazy_population_raises [where e = test_env and d = 7 and c = Chat
      and info_url = PNone and un = PNone and uq = PNone and w = 0
      and name = "''id''" and obj = "(Chat, [])"]
  have l: "lookup (Chat, [(''_info_url'', PStr ''https://x/info''), (''hutoma_session'', PSession),
                   (''_underscore_names'', PNone), (''_uniq'', PNone),
                   (''_has_fetched'', PBool False)]) ''id'' = None"
    by (simp add: lookup_def class_attr_def HutomaObject_members_def object_members_def
          Editable_members_def)
  from a b l show ?thesis
    unfolding n by simp
qed

text \<open>
  C7, as the code stands: no object is ever materialized:
  \<^verbatim>\<open>from_api_response\<close> passes no \<^verbatim>\<open>info_url\<close>, so the constructor raises \<^verbatim>\<open>KeyError\<close>
  at \<^verbatim>\<open>config['info']\<close>. And on any object without an attribute \<^verbatim>\<open>session\<close>, comparing
  with another object raises instead of returning a truth value, because the property
  \<^verbatim>\<open>fullname\<close> reads \<^verbatim>\<open>self.session\<close>.
\<close>

theorem equality_raises:
  "from_api_response e (Suc (Suc (Suc d))) c PSession json_dict w = (Inl KeyError, w)
   \<and> (\<exists>err. from_api_response e d c PSession json_dict w = (Inl err, w))
   \<and> (map_of (snd self) ''session'' = None
      \<longrightarrow> (\<exists>err. dunder_eq e d (PObj c' a) (self, w) = (Inl err, self, w)))"
proof (intro conjI impI)
  show "from_api_response e (Suc (Suc (Suc d))) c PSession json_dict w = (Inl KeyError, w)"
    by (rule from_api_response_KeyError)
  show "\<exists>err. from_api_response e d c PSession json_dict w = (Inl err, w)"
    by (rule failsE) (rule from_api_response_fails)
  show "\<exists>err. dunder_eq e d (PObj c' a) (self, w) = (Inl err, self, w)"
    if "map_of (snd self) ''session'' = None"
    using that by (rule dunder_eq_fails)
qed

theorem equality_raises_witness:
  "from_api_response test_env 9 AI PSession (PDict [(''id'', PStr ''abc'')]) 0 = (Inl KeyError, 0)
   \<and> (\<exists>err. dunder_eq test_env 9
               (PObj AI [(''id'', PStr ''abc''), (''_has_fetched'', PBool True)])
               ((AI, [(''id'', PStr ''abc''), (''_has_fetched'', PBool True)]), 0)
             = (Inl err, (AI, [(''id'', PStr ''abc''), (''_has_fetched'', PBool True)]), 0))"
proof -
  have n: "(9::nat) = Suc (Suc (Suc 6))" by simp
  note a = equality_raises [where e = test_env and d = 6 and c = AI
      and json_dict = "PDict [(''id'', PStr ''abc'')]" and w = 0 and self = "(AI, [])"]
  note b = equality_raises [where e = test_env and d = 9 and c = AI
      and json_dict = "PDict [(''id'', PStr ''abc'')]" and w = 0 and c' = AI
      and a = "[(''id'', PStr ''abc''), (''_has_fetched'', PBool True)]"
      and self = "(AI, [(''id'', PStr ''abc''), (''_has_fetched'', PBool True)])"]
  from a b show ?thesis
    unfolding n by simp
qed

text \<open>
  C10, as the code stands: the names that
  \<^verbatim>\<open>__setattr__\<close> treats specially are the substrings of \<^verbatim>\<open>AIID\<close> (the empty name among
  them). For such a name a false or boolean value is stored as it is and \<^verbatim>\<open>[deleted]\<close>
  is stored as \<^verbatim>\<open>None\<close>; any other value is to be wrapped in \<^verbatim>\<open>AI(self.session, value,
  fetch=False)\<close>, and on an object without an attribute \<^verbatim>\<open>session\<close> this raises and stores
  nothing. A name that is no substring of \<^verbatim>\<open>AIID\<close>, other than the read-only property
  \<^verbatim>\<open>fullname\<close> and the descriptors \<^verbatim>\<open>__class__\<close>, \<^verbatim>\<open>__dict__\<close> and \<^verbatim>\<open>__weakref__\<close> of
  every object, is stored with its value unchanged.
\<close>

theorem setattr_reference_raises:
  "(str_contains HUTOMA_KEYS name \<longleftrightarrow>
      name \<in> {[], ''A'', ''I'', ''D'', ''AI'', ''II'', ''ID'', ''AII'', ''IID'', ''AIID''})
   \<and> (str_contains HUTOMA_KEYS name \<and> truthy v \<and> \<not> is_bool v \<and> v \<noteq> PStr ''[deleted]''
        \<and> map_of (snd obj) ''session'' = None
      \<longrightarrow> (\<exists>err. setattr e d name v (obj, w) = (Inl err, obj, w)))
   \<and> (str_contains HUTOMA_KEYS name \<and> (is_bool v \<or> \<not> truthy v)
      \<longrightarrow> setattr e (Suc d) name v (obj, w)
            = (Inr (), (fst obj, dict_set name v (snd obj)), w))
   \<and> (str_contains HUTOMA_KEYS name
      \<longrightarrow> setattr e (Suc d) name (PStr ''[deleted]'') (obj, w)
            = (Inr (), (fst obj, dict_set name PNone (snd obj)), w))
   \<and> (\<not> str_contains HUTOMA_KEYS name
        \<and> name \<notin> {''fullname'', ''__class__'', ''__dict__'', ''__weakref__''}
      \<longrightarrow> setattr e (Suc d) name v (obj, w)
            = (Inr (), (fst obj, dict_set name v (snd obj)), w))"
proof (intro conjI impI)
  show "str_contains HUTOMA_KEYS name \<longleftrightarrow>
      name \<in> {[], ''A'', ''I'', ''D'', ''AI'', ''II'', ''ID'', ''AII'', ''IID'', ''AIID''}"
    by (rule str_contains_HUTOMA_KEYS)
  show "\<exists>err. setattr e d name v (obj, w) = (Inl err, obj, w)"
    if "str_contains HUTOMA_KEYS name \<and> truthy v \<and> \<not> is_bool v \<and> v \<noteq> PStr ''[deleted]''
        \<and> map_of (snd obj) ''session'' = None"
    using that setattr_reference_fails [of name v obj e d w] by simp
  show "setattr e (Suc d) name v (obj, w) = (Inr (), (fst obj, dict_set name v (snd obj)), w)"
    if h: "str_contains HUTOMA_KEYS name \<and> (is_bool v \<or> \<not> truthy v)"
  proof -
    from h key_is_storable
    have "name \<notin> {''fullname'', ''__class__'', ''__dict__'', ''__weakref__''}" by blast
    with h show ?thesis by (intro setattr_stores) auto
  qed
  show "setattr e (Suc d) name (PStr ''[deleted]'') (obj, w)
            = (Inr (), (fst obj, dict_set name PNone (snd obj)), w)"
    if "str_contains HUTOMA_KEYS name"
    using that by (rule setattr_deleted)
  show "setattr e (Suc d) name v (obj, w) = (Inr (), (fst obj, dict_set name v (snd obj)), w)"
    if "\<not> str_contains HUTOMA_KEYS name
        \<and> name \<notin> {''fullname'', ''__class__'', ''__dict__'', ''__weakref__''}"
    using that by (intro setattr_stores) auto
qed

theorem setattr_reference_raises_witness:
  "str_contains HUTOMA_KEYS ''ID''
   \<and> (\<exists>err. setattr test_env 9 ''ID'' (PStr ''abc'') ((Chat, [(''_has_fetched'', PBool True)]), 0)
             = (Inl err, (Chat, [(''_has_fetched'', PBool True)]), 0))
   \<and> setattr test_env 9 ''ID'' (PBool True) ((Chat, []), 0)
        = (Inr (), (Chat, [(''ID'', PBool True)]), 0)
   \<and> setattr test_env 9 ''ID'' (PStr ''[deleted]'') ((Chat, []), 0)
        = (Inr (), (Chat, [(''ID'', PNone)]), 0)
   \<and> setattr test_env 9 ''name'' (PStr ''abc'') ((Chat, []), 0)
        = (Inr (), (Chat, [(''name'', PStr ''abc'')]), 0)"
proof -
  have n: "(9::nat) = Suc 8" by simp
  have k: "str_contains HUTOMA_KEYS ''ID''" "\<not> str_contains HUTOMA_KEYS ''name''"
    by (simp_all add: HUTOMA_KEYS_def)
  note a = setattr_reference_raises [where e = test_env and d = 9 and name = "''ID''"
      and v = "PStr ''abc''" and obj = "(Chat, [(''_has_fetched'', PBool True)])" and w = 0]
  note b = setattr_reference_raises [where e = test_env and d = 8 and name = "''ID''"
      and v = "PBool True" and obj = "(Chat, [])" and w = 0]
  note c = setattr_reference_raises [where e = test_env and d = 8 and name = "''name''"
      and v = "PStr ''abc''" and obj = "(Chat, [])" and w = 0]
  from a b c k show ?thesis
    unfolding n by simp
qed

subsection \<open>The materializer\<close>

text \<open>
  C4, as stated, fails for a mapping of unrecognized kind with sibling keys. With a key
  \<^verbatim>\<open>json\<close> among them a warning is emitted and the inner value is returned, not the raw
  mapping; without one the raw mapping is returned and no warning is emitted.
\<close>

theorem unknown_kind_with_siblings:
  "json_hutoma_objecter test_env 9 [(''kind'', PStr ''zzz''), (''json'', PInt 1)] 0
     = (Inr (PInt 1), [[(''kind'', PStr ''zzz''), (''json'', PInt 1)]], 0)
   \<and> json_hutoma_objecter test_env 9 [(''kind'', PStr ''zzz''), (''x'', PInt 1)] 0
     = (Inr (PDict [(''kind'', PStr ''zzz''), (''x'', PInt 1)]), [], 0)"
  by (simp add: json_hutoma_objecter_def by_kind_def)

lemma by_kind_lookup_known:
  "by_kind_lookup kind = Inr cls \<longleftrightarrow> (\<exists>s. kind = PStr s \<and> map_of by_kind s = Some cls)"
  by (cases kind) (simp_all split: option.splits)

lemma by_kind_lookup_unhashable:
  "by_kind_lookup kind = Inl TypeError \<longleftrightarrow>
     (\<exists>xs. kind = PList xs) \<or> (\<exists>kvs. kind = PDict kvs) \<or> (\<exists>c a. kind = PObj c a)"
  by (cases kind) (simp_all split: option.splits)

lemma by_kind_lookup_cases:
  "(\<exists>cls. by_kind_lookup kind = Inr cls) \<or> by_kind_lookup kind = Inl KeyError
     \<or> by_kind_lookup kind = Inl TypeError"
  by (cases kind) (simp_all split: option.splits)

lemma known_kind_fails:
  assumes "map_of json_data ''kind'' = Some kind" and "by_kind_lookup kind = Inr cls"
    and "map_of json_data ''data'' = Some data"
  shows "\<exists>err. json_hutoma_objecter e d json_data w = (Inl err, [], w)"
proof -
  from failsE [OF from_api_response_fails [of e d cls data w]]
  obtain err where "from_api_response e d cls PSession data w = (Inl err, w)" ..
  with assms show ?thesis
    by (simp add: json_hutoma_objecter_def)
qed

lemma known_kind_KeyError:
  assumes "map_of json_data ''kind'' = Some kind" and "by_kind_lookup kind = Inr cls"
  shows "json_hutoma_objecter e (Suc (Suc (Suc d))) json_data w = (Inl KeyError, [], w)"
  using assms
  by (simp add: json_hutoma_objecter_def from_api_response_KeyError split: option.splits)

lemma unknown_kind_cases:
  assumes "map_of json_data ''kind'' = None
      \<or> (\<exists>k. map_of json_data ''kind'' = Some k \<and> by_kind_lookup k = Inl KeyError)"
  shows "json_hutoma_objecter e d json_data w =
     (case map_of json_data ''json'' of
        Some inner \<Rightarrow> (Inr inner, if length json_data \<noteq> 1 then [json_data] else [], w)
      | None \<Rightarrow> (Inr (PDict json_data), [], w))"
  using assms by (auto simp: json_hutoma_objecter_def)

lemma unhashable_kind_TypeError:
  assumes "map_of json_data ''kind'' = Some kind" and "by_kind_lookup kind = Inl TypeError"
  shows "json_hutoma_objecter e d json_data w = (Inl TypeError, [], w)"
  using assms by (simp add: json_hutoma_objecter_def)

text \<open>
  C4 (amended): when the \<^verbatim>\<open>kind\<close> of a mapping is absent, or is a hashable value that is
  no key of the table of subtypes, a mapping with a key \<^verbatim>\<open>json\<close> yields the value under
  it, with a warning exactly when the mapping has other keys too (so the one-key wrapper
  yields its inner value silently), and a mapping without that key is returned as it is,
  with no warning. The kind is a key of the table exactly when it is one of its strings,
  it is unhashable exactly when it is a list, a mapping or an object, and every other
  kind is a missing key.

  The other kinds, as the code stands: an unhashable kind raises \<^verbatim>\<open>TypeError\<close>, and a
  kind that names a known subtype yields no object. The call raises, with no warning and
  no request made, and where the interpreter leaves room for three nested calls the
  exception is the \<^verbatim>\<open>KeyError\<close> of \<^verbatim>\<open>config['info']\<close> in the constructor (or of the missing
  \<^verbatim>\<open>data\<close> field). So does the mapping \<^verbatim>\<open>{"kind": "ai", "data": {"id": "abc"}}\<close>.
\<close>

theorem json_hutoma_objecter_cases:
  "((map_of json_data ''kind'' = None
        \<or> (\<exists>k. map_of json_data ''kind'' = Some k \<and> by_kind_lookup k = Inl KeyError))
      \<longrightarrow> json_hutoma_objecter e d json_data w =
            (case map_of json_data ''json'' of
               Some inner \<Rightarrow> (Inr inner, if length json_data \<noteq> 1 then [json_data] else [], w)
             | None \<Rightarrow> (Inr (PDict json_data), [], w)))
   \<and> json_hutoma_objecter e d [(''json'', wrapped)] w = (Inr wrapped, [], w)
   \<and> (map_of json_data ''kind'' = Some kind \<and> by_kind_lookup kind = Inl TypeError
      \<longrightarrow> json_hutoma_objecter e d json_data w = (Inl TypeError, [], w))
   \<and> (map_of json_data ''kind'' = Some kind \<and> by_kind_lookup kind = Inr cls
      \<longrightarrow> json_hutoma_objecter e (Suc (Suc (Suc d))) json_data w = (Inl KeyError, [], w)
        \<and> (map_of json_data ''data'' = None
            \<longrightarrow> json_hutoma_objecter e d json_data w = (Inl KeyError, [], w))
        \<and> (map_of json_data ''data'' \<noteq> None
            \<longrightarrow> (\<exists>err. json_hutoma_objecter e d json_data w = (Inl err, [], w))))
   \<and> json_hutoma_objecter e (Suc (Suc (Suc d)))
       [(''kind'', PStr ''ai''), (''data'', PDict [(''id'', PStr ''abc'')])] w
     = (Inl KeyError, [], w)
   \<and> (by_kind_lookup kind = Inr cls \<longleftrightarrow> (\<exists>s. kind = PStr s \<and> map_of by_kind s = Some cls))
   \<and> (by_kind_lookup kind = Inl TypeError \<longleftrightarrow>
        (\<exists>xs. kind = PList xs) \<or> (\<exists>kvs. kind = PDict kvs) \<or> (\<exists>c a. kind = PObj c a))
   \<and> ((\<exists>cls. by_kind_lookup kind = Inr cls) \<or> by_kind_lookup kind = Inl KeyError
        \<or> by_kind_lookup kind = Inl TypeError)"
proof (intro conjI impI)
  assume "map_of json_data ''kind'' = None
      \<or> (\<exists>k. map_of json_data ''kind'' = Some k \<and> by_kind_lookup k = Inl KeyError)"
  then show "json_hutoma_objecter e d json_data w =
            (case map_of json_data ''json'' of
               Some inner \<Rightarrow> (Inr inner, if length json_data \<noteq> 1 then [json_data] else [], w)
             | None \<Rightarrow> (Inr (PDict json_data), [], w))"
    by (rule unknown_kind_cases)
next
  show "json_hutoma_objecter e d [(''json'', wrapped)] w = (Inr wrapped, [], w)"
    by (simp add: json_hutoma_objecter_def)
next
  assume "map_of json_data ''kind'' = Some kind \<and> by_kind_lookup kind = Inl TypeError"
  then show "json_hutoma_objecter e d json_data w = (Inl TypeError, [], w)"
    by (simp add: unhashable_kind_TypeError)
next
  assume k: "map_of json_data ''kind'' = Some kind \<and> by_kind_lookup kind = Inr cls"
  then show "json_hutoma_objecter e (Suc (Suc (Suc d))) json_data w = (Inl KeyError, [], w)"
    by (simp add: known_kind_KeyError)
  {
    assume "map_of json_data ''data'' = None"
    with k show "json_hutoma_objecter e d json_data w = (Inl KeyError, [], w)"
      by (simp add: json_hutoma_objecter_def)
  }
  {
    assume "map_of json_data ''data'' \<noteq> None"
    then obtain data where "map_of json_data ''data'' = Some data" by auto
    with k show "\<exists>err. json_hutoma_objecter e d json_data w = (Inl err, [], w)"
      by (simp add: known_kind_fails)
  }
next
  show "json_hutoma_objecter e (Suc (Suc (Suc d)))
       [(''kind'', PStr ''ai''), (''data'', PDict [(''id'', PStr ''abc'')])] w
     = (Inl KeyError, [], w)"
    by (simp add: json_hutoma_objecter_def by_kind_def from_api_response_KeyError)
next
  show "by_kind_lookup kind = Inr cls \<longleftrightarrow> (\<exists>s. kind = PStr s \<and> map_of by_kind s = Some cls)"
    by (rule by_kind_lookup_known)
next
  show "by_kind_lookup kind = Inl TypeError \<longleftrightarrow>
        (\<exists>xs. kind = PList xs) \<or> (\<exists>kvs. kind = PDict kvs) \<or> (\<exists>c a. kind = PObj c a)"
    by (rule by_kind_lookup_unhashable)
next
  show "(\<exists>cls. by_kind_lookup kind = Inr cls) \<or> by_kind_lookup kind = Inl KeyError
        \<or> by_kind_lookup kind = Inl TypeError"
    by (rule by_kind_lookup_cases)
qed

theorem json_hutoma_objecter_cases_witness:
  "json_hutoma_objecter test_env 9 [(''kind'', PStr ''ai''), (''data'', PDict [(''id'', PStr ''abc'')])] 0
     = (Inl KeyError, [], 0)
   \<and> json_hutoma_objecter test_env 9 [(''kind'', PStr ''ai'')] 0 = (Inl KeyError, [], 0)
   \<and> json_hutoma_objecter test_env 9 [(''kind'', PList [])] 0 = (Inl TypeError, [], 0)
   \<and> json_hutoma_objecter test_env 9 [(''json'', PList [PInt 1, PInt 2])] 0
     = (Inr (PList [PInt 1, PInt 2]), [], 0)
   \<and> json_hutoma_objecter test_env 9 [(''kind'', PStr ''zzz''), (''json'', PInt 1)] 0
     = (Inr (PInt 1), [[(''kind'', PStr ''zzz''), (''json'', PInt 1)]], 0)
   \<and> json_hutoma_objecter test_env 9 [(''kind'', PInt 7), (''x'', PInt 1)] 0
     = (Inr (PDict [(''kind'', PInt 7), (''x'', PInt 1)]), [], 0)
   \<and> (\<exists>err. json_hutoma_objecter test_env 0
         [(''kind'', PStr ''ai''), (''data'', PDict [(''id'', PStr ''abc'')])] 0
       = (Inl err, [], 0))"
proof -
  have n: "(9::nat) = Suc (Suc (Suc 6))" by simp
  note a = json_hutoma_objecter_cases [where e = test_env and d = 6 and w = 0
      and json_data = "[(''kind'', PStr ''ai''), (''data'', PDict [(''id'', PStr ''abc'')])]"
      and kind = "PStr ''ai''" and cls = AI and wrapped = "PList [PInt 1, PInt 2]"]
  note a0 = json_hutoma_objecter_cases [where e = test_env and d = 0 and w = 0
      and json_data = "[(''kind'', PStr ''ai''), (''data'', PDict [(''id'', PStr ''abc'')])]"
      and kind = "PStr ''ai''" and cls = AI and wrapped = PNone]
  note b = json_hutoma_objecter_cases [where e = test_env and d = 9 and w = 0
      and json_data = "[(''kind'', PStr ''ai'')]"
      and kind = "PStr ''ai''" and cls = AI and wrapped = "PList [PInt 1, PInt 2]"]
  note c = json_hutoma_objecter_cases [where e = test_env and d = 9 and w = 0
      and json_data = "[(''kind'', PList [])]"
      and kind = "PList []" and cls = AI and wrapped = PNone]
  note f = json_hutoma_objecter_cases [where e = test_env and d = 9 and w = 0
      and json_data = "[(''kind'', PStr ''zzz''), (''json'', PInt 1)]"
      and kind = "PStr ''zzz''" and cls = AI and wrapped = PNone]
  note g = json_hutoma_objecter_cases [where e = test_env and d = 9 and w = 0
      and json_data = "[(''kind'', PInt 7), (''x'', PInt 1)]"
      and kind = "PInt 7" and cls = AI and wrapped = PNone]
  have k: "by_kind_lookup (PStr ''ai'') = Inr AI" "by_kind_lookup (PStr ''zzz'') = Inl KeyError"
    "by_kind_lookup (PInt 7) = Inl KeyError" "by_kind_lookup (PList []) = Inl TypeError"
    by (simp_all add: by_kind_def)
  have 1: "json_hutoma_objecter test_env 9
      [(''kind'', PStr ''ai''), (''data'', PDict [(''id'', PStr ''abc'')])] 0 = (Inl KeyError, [], 0)"
    using a k(1) unfolding n by simp
  have 2: "json_hutoma_objecter test_env 9 [(''kind'', PStr ''ai'')] 0 = (Inl KeyError, [], 0)"
    using b k(1) by simp
  have 3: "json_hutoma_objecter test_env 9 [(''kind'', PList [])] 0 = (Inl TypeError, [], 0)"
    using c k(4) by simp
  have 4: "json_hutoma_objecter test_env 9 [(''json'', PList [PInt 1, PInt 2])] 0
     = (Inr (PList [PInt 1, PInt 2]), [], 0)"
    using b by simp
  have 5: "json_hutoma_objecter test_env 9 [(''kind'', PStr ''zzz''), (''json'', PInt 1)] 0
     = (Inr (PInt 1), [[(''kind'', PStr ''zzz''), (''json'', PInt 1)]], 0)"
    using f k(2) by simp
  have 6: "json_hutoma_objecter test_env 9 [(''kind'', PInt 7), (''x'', PInt 1)] 0
     = (Inr (PDict [(''kind'', PInt 7), (''x'', PInt 1)]), [], 0)"
    using g k(3) by simp
  have 7: "\<exists>err. json_hutoma_objecter test_env 0
         [(''kind'', PStr ''ai''), (''data'', PDict [(''id'', PStr ''abc'')])] 0
       = (Inl err, [], 0)"
    using a0 k(1) by simp
  from 1 2 3 4 5 6 7 show ?thesis by simp
qed

end
